theory Spec2Isabelle
  imports Complex_Main
begin

section \<open>Data model\<close>

text \<open>
  Conventions of the embedding.
  \<^item> A JavaScript \<open>number\<close> that may hold a fraction (rewards, multipliers, thresholds,
    point totals) is a \<open>rat\<close>: exact arithmetic stands for the doubles of the source.
    Numbers that only ever hold integers (identifiers, the configuration version,
    message counters, the streak) are \<open>int\<close>.
  \<^item> A \<open>Date\<close> is its \<open>getTime()\<close>, an \<open>int\<close> of milliseconds since the epoch; an
    optional field is an \<open>option\<close>. Every \<open>new Date()\<close> and \<open>Date.now()\<close> of one call
    reads the same instant \<open>now\<close>, passed as an argument.
  \<^item> Local time is that of the host's zone, an argument \<open>zone\<close> of every function that
    reads a local field of a \<open>Date\<close> or builds a \<open>Date\<close> from local fields.
  \<^item> \<open>User.findOne({ userId })\<close> is the \<open>IUser option\<close> handed to a function (the schema
    makes \<open>userId\<close> unique); a function that saves the document returns the saved one.
  \<^item> The configuration that \<open>getConfig(groupId)\<close> resolves is an argument of the points
    engine, so every statement about the engine holds for every configuration.
\<close>

subsection \<open>models/TaxConfig.ts\<close>

record StreakMultiplier =
  days :: rat
  multiplier :: rat

record MilestoneReward =
  points :: rat
  bonus :: rat

record NightOwlBonus =
  startHour :: rat
  endHour :: rat
  nightBonus :: rat

text \<open>The value of a \<open>Schema.Types.Mixed\<close> field.\<close>

datatype mixed =
  MNull | MBool bool | MNum rat | MStr string | MArr "mixed list" | MObj "(string \<times> mixed) list"

record GroupOverride =
  go_groupId :: int
  overrides :: mixed

record ITaxConfig =
  version :: int
  lastUpdated :: int
  updatedBy :: "int option"
  isActive :: bool
  welcomeBonus :: rat
  baseMessagePoints :: rat
  dailyFirstMessageBonus :: rat
  minMessageLength :: rat
  qualityMessageLength :: rat
  qualityMultiplier :: rat
  replyBonus :: rat
  streakMultipliers :: "StreakMultiplier list"
  maxStreakMultiplier :: rat
  cooldownSeconds :: rat
  maxPointsPerHour :: rat
  maxPointsPerDay :: rat
  diminishingReturnsThreshold :: rat
  diminishingReturnsFactor :: rat
  milestoneRewards :: "MilestoneReward list"
  weekendMultiplier :: rat
  nightOwlBonus :: NightOwlBonus
  enableWelcomeBonus :: bool
  enableDailyBonus :: bool
  enableStreakMultiplier :: bool
  enableQualityMultiplier :: bool
  enableTimeMultiplier :: bool
  enableMilestoneRewards :: bool
  enablePointNotifications :: bool
  notificationThreshold :: rat
  enableRankNotifications :: bool
  enableStreakNotifications :: bool
  groupOverrides :: "GroupOverride list"

text \<open>\<open>taxConfigSchema.statics.getDefaultConfig\<close>; \<open>lastUpdated\<close> is the instant of the call.\<close>

definition getDefaultConfig :: "int \<Rightarrow> ITaxConfig" where
  "getDefaultConfig now =
     \<lparr> version = 1, lastUpdated = now, updatedBy = None, isActive = True,
       welcomeBonus = 500, baseMessagePoints = 2, dailyFirstMessageBonus = 50,
       minMessageLength = 5, qualityMessageLength = 30, qualityMultiplier = 3 / 2,
       replyBonus = 3,
       streakMultipliers =
         [\<lparr>days = 3, multiplier = 6 / 5\<rparr>, \<lparr>days = 7, multiplier = 3 / 2\<rparr>,
          \<lparr>days = 14, multiplier = 9 / 5\<rparr>, \<lparr>days = 30, multiplier = 2\<rparr>],
       maxStreakMultiplier = 5 / 2,
       cooldownSeconds = 30, maxPointsPerHour = 100, maxPointsPerDay = 500,
       diminishingReturnsThreshold = 20, diminishingReturnsFactor = 7 / 10,
       milestoneRewards =
         [\<lparr>points = 1000, bonus = 100\<rparr>, \<lparr>points = 5000, bonus = 250\<rparr>,
          \<lparr>points = 10000, bonus = 500\<rparr>, \<lparr>points = 25000, bonus = 1000\<rparr>],
       weekendMultiplier = 13 / 10,
       nightOwlBonus = \<lparr>startHour = 22, endHour = 6, nightBonus = 6 / 5\<rparr>,
       enableWelcomeBonus = True, enableDailyBonus = True, enableStreakMultiplier = True,
       enableQualityMultiplier = True, enableTimeMultiplier = True,
       enableMilestoneRewards = True, enablePointNotifications = False,
       notificationThreshold = 10, enableRankNotifications = False,
       enableStreakNotifications = True,
       groupOverrides = [] \<rparr>"

subsection \<open>models/User.ts\<close>

record GroupActivity =
  ga_groupId :: int
  ga_messagesCount :: int
  pointsEarned :: rat
  lastMessageDate :: "int option"
  dailyPoints :: rat
  lastDailyReset :: "int option"

record IUser =
  userId :: int
  isVerified :: bool
  verificationDate :: "int option"
  taxPoints :: rat
  totalPointsEarned :: rat
  lastActivityDate :: "int option"
  messagesCount :: int
  dailyStreak :: int
  lastStreakDate :: "int option"
  lastPointAward :: "int option"
  groupActivity :: "GroupActivity list"

text \<open>
  The document that the upsert of \<open>handleNewUser\<close> inserts for an unknown \<open>userId\<close>: every
  field the update does not name takes its schema default.
\<close>

definition newUser :: "int \<Rightarrow> IUser" where
  "newUser uid =
     \<lparr> userId = uid, isVerified = False, verificationDate = None,
       taxPoints = 0, totalPointsEarned = 0, lastActivityDate = None,
       messagesCount = 0, dailyStreak = 0, lastStreakDate = None,
       lastPointAward = None, groupActivity = [] \<rparr>"

subsection \<open>Dates\<close>

text \<open>
  The zone of the host is ECMAScript's \<open>LocalTZA(t, isUTC)\<close>: the offset of local time
  from UTC in milliseconds, at the instant \<open>t\<close> when \<open>isUTC\<close> holds and at the local
  time value \<open>t\<close> otherwise. \<open>LocalTime\<close> and \<open>toUTC\<close> (ECMAScript's \<open>UTC\<close>) are the
  conversions that the getters and the constructor of \<open>Date\<close> use.
\<close>

type_synonym zone = "int \<Rightarrow> bool \<Rightarrow> int"

definition msPerDay :: int where
  "msPerDay = 1000 * 60 * 60 * 24"

definition LocalTime :: "zone \<Rightarrow> int \<Rightarrow> int" where
  "LocalTime zone t = t + zone t True"

definition toUTC :: "zone \<Rightarrow> int \<Rightarrow> int" where
  "toUTC zone t = t - zone t False"

text \<open>
  \<open>new Date(d.getFullYear(), d.getMonth(), d.getDate())\<close>: the instant of the local
  midnight that opens the local day of \<open>d\<close>.
\<close>

definition startOfDay :: "zone \<Rightarrow> int \<Rightarrow> int" where
  "startOfDay zone d = toUTC zone (LocalTime zone d div msPerDay * msPerDay)"

definition getHours :: "zone \<Rightarrow> int \<Rightarrow> int" where
  "getHours zone d = (LocalTime zone d div (1000 * 60 * 60)) mod 24"

text \<open>\<open>getDay()\<close>: 0 is Sunday; the epoch was a Thursday.\<close>

definition getDay :: "zone \<Rightarrow> int \<Rightarrow> int" where
  "getDay zone d = (LocalTime zone d div msPerDay + 4) mod 7"

text \<open>\<open>Math.round\<close>: the nearest integer, a half rounded up.\<close>

definition Math_round :: "rat \<Rightarrow> int" where
  "Math_round x = \<lfloor>x + 1 / 2\<rfloor>"

subsection \<open>The helper methods of the user schema\<close>

definition findGroupActivity :: "int \<Rightarrow> GroupActivity list \<Rightarrow> GroupActivity option" where
  "findGroupActivity gid gas = find (\<lambda>g. ga_groupId g = gid) gas"

text \<open>
  The update of the entry that \<open>find\<close> returns: the first entry of the group. The source
  mutates the object \<open>find\<close> handed out, which is that element of the array.
\<close>

fun updateGroupActivity ::
  "int \<Rightarrow> (GroupActivity \<Rightarrow> GroupActivity) \<Rightarrow> GroupActivity list \<Rightarrow> GroupActivity list" where
  "updateGroupActivity gid f [] = []"
| "updateGroupActivity gid f (g # gs) =
     (if ga_groupId g = gid then f g # gs else g # updateGroupActivity gid f gs)"

text \<open>
  The branch \<open>if (groupId)\<close> of both methods, for a truthy \<open>groupId\<close>: update the entry
  of the group, or push the entry \<open>fresh\<close>.
\<close>

definition upsertGroupActivity ::
  "int \<Rightarrow> (GroupActivity \<Rightarrow> GroupActivity) \<Rightarrow> GroupActivity \<Rightarrow> IUser \<Rightarrow> IUser" where
  "upsertGroupActivity gid f fresh u =
     (case findGroupActivity gid (groupActivity u) of
        Some g \<Rightarrow> u\<lparr> groupActivity := updateGroupActivity gid f (groupActivity u) \<rparr>
      | None \<Rightarrow> u\<lparr> groupActivity := groupActivity u @ [fresh] \<rparr>)"

text \<open>\<open>if (groupId)\<close> is false for an absent identifier and for the identifier 0.\<close>

definition awardPoints :: "rat \<Rightarrow> int option \<Rightarrow> int \<Rightarrow> IUser \<Rightarrow> IUser" where
  "awardPoints pts groupId now u =
     (let u1 = u\<lparr> taxPoints := taxPoints u + pts,
                  totalPointsEarned := totalPointsEarned u + pts,
                  lastActivityDate := Some now,
                  lastPointAward := Some now \<rparr>
      in case groupId of
           None \<Rightarrow> u1
         | Some gid \<Rightarrow>
             if gid = 0 then u1
             else upsertGroupActivity gid
                    (\<lambda>g. g\<lparr> pointsEarned := pointsEarned g + pts,
                             lastMessageDate := Some now \<rparr>)
                    \<lparr> ga_groupId = gid, ga_messagesCount = 0, pointsEarned = pts,
                      lastMessageDate = Some now, dailyPoints = 0, lastDailyReset = None \<rparr>
                    u1)"

definition incrementMessages :: "int option \<Rightarrow> int \<Rightarrow> IUser \<Rightarrow> IUser" where
  "incrementMessages groupId now u =
     (let u1 = u\<lparr> messagesCount := messagesCount u + 1 \<rparr>
      in case groupId of
           None \<Rightarrow> u1
         | Some gid \<Rightarrow>
             if gid = 0 then u1
             else upsertGroupActivity gid
                    (\<lambda>g. g\<lparr> ga_messagesCount := ga_messagesCount g + 1,
                             lastMessageDate := Some now \<rparr>)
                    \<lparr> ga_groupId = gid, ga_messagesCount = 1, pointsEarned = 0,
                      lastMessageDate = Some now, dailyPoints = 0, lastDailyReset = None \<rparr>
                    u1)"

definition updateStreak :: "zone \<Rightarrow> int \<Rightarrow> IUser \<Rightarrow> IUser" where
  "updateStreak zone now u =
     (let today = startOfDay zone now;
          u1 = (case lastStreakDate u of
                  None \<Rightarrow> u\<lparr> dailyStreak := 1 \<rparr>
                | Some l \<Rightarrow>
                    (let lastStreakDay = startOfDay zone l;
                         daysDiff = (today - lastStreakDay) div msPerDay
                     in if daysDiff = 1 then u\<lparr> dailyStreak := dailyStreak u + 1 \<rparr>
                        else if daysDiff > 1 then u\<lparr> dailyStreak := 1 \<rparr>
                        else u))
      in u1\<lparr> lastStreakDate := Some now \<rparr>)"

section \<open>services/TaxPointsService.ts\<close>

text \<open>
  What the service reads of the Telegraf context: the sender's identifier (\<open>ctx.from\<close> may
  be absent), the chat's identifier (\<open>ctx.chat\<close> may be absent), and whether the message
  carries a \<open>reply_to_message\<close>.
\<close>

record Ctx =
  ctx_from :: "int option"
  ctx_chat :: "int option"
  isReply :: bool

text \<open>A message text is the list of its UTF-16 code units, one \<open>char\<close> each.\<close>

definition getQualityMultiplier :: "string \<Rightarrow> ITaxConfig \<Rightarrow> rat" where
  "getQualityMultiplier messageText config =
     (if of_nat (length messageText) < minMessageLength config then 0
      else if of_nat (length messageText) \<ge> qualityMessageLength config
        then qualityMultiplier config
      else 1)"

text \<open>The loop of \<open>getStreakMultiplier\<close>, with its \<open>break\<close>.\<close>

fun streakLoop :: "int \<Rightarrow> rat \<Rightarrow> StreakMultiplier list \<Rightarrow> rat" where
  "streakLoop streak m [] = m"
| "streakLoop streak m (threshold # rest) =
     (if of_int streak \<ge> days threshold then streakLoop streak (multiplier threshold) rest
      else m)"

definition getStreakMultiplier :: "int \<Rightarrow> ITaxConfig \<Rightarrow> rat" where
  "getStreakMultiplier streak config =
     min (streakLoop streak 1 (streakMultipliers config)) (maxStreakMultiplier config)"

definition getTimeMultiplier :: "zone \<Rightarrow> ITaxConfig \<Rightarrow> int \<Rightarrow> rat" where
  "getTimeMultiplier zone config now =
     (let hour = getHours zone now;
          isWeekend = (getDay zone now = 0 \<or> getDay zone now = 6);
          m0 = 1;
          m1 = (if isWeekend then m0 * weekendMultiplier config else m0);
          nightOwl = nightOwlBonus config
      in if of_int hour \<ge> startHour nightOwl \<or> of_int hour \<le> endHour nightOwl
         then m1 * nightBonus nightOwl else m1)"

definition canAwardPoints :: "IUser \<Rightarrow> ITaxConfig \<Rightarrow> int \<Rightarrow> bool" where
  "canAwardPoints user config now =
     (case lastPointAward user of
        None \<Rightarrow> True
      | Some l \<Rightarrow>
          (let cooldownMs = cooldownSeconds config * 1000;
               timeSinceLastAward = now - l
           in of_int timeSinceLastAward \<ge> cooldownMs))"

text \<open>
  \<open>canAwardDailyPoints\<close> answers and, on a new day, writes to the entry it was given: the
  result is the answer and the entry afterwards.
\<close>

definition canAwardDailyPoints :: "zone \<Rightarrow> GroupActivity \<Rightarrow> ITaxConfig \<Rightarrow> int \<Rightarrow> bool \<times> GroupActivity" where
  "canAwardDailyPoints zone ga config now =
     (let todayStart = startOfDay zone now
      in if (case lastDailyReset ga of None \<Rightarrow> True | Some r \<Rightarrow> r < todayStart)
         then (True, ga\<lparr> dailyPoints := 0, lastDailyReset := Some now \<rparr>)
         else (dailyPoints ga < maxPointsPerDay config, ga))"

definition isFirstMessageToday :: "zone \<Rightarrow> IUser \<Rightarrow> int \<Rightarrow> int \<Rightarrow> bool" where
  "isFirstMessageToday zone user gid now =
     (case findGroupActivity gid (groupActivity user) of
        None \<Rightarrow> True
      | Some g \<Rightarrow>
          (case lastMessageDate g of
             None \<Rightarrow> True
           | Some d \<Rightarrow> d < startOfDay zone now))"

definition getHourlyMessageCount :: "IUser \<Rightarrow> int \<Rightarrow> int \<Rightarrow> int" where
  "getHourlyMessageCount user gid now =
     (case findGroupActivity gid (groupActivity user) of
        None \<Rightarrow> 0
      | Some g \<Rightarrow>
          (case lastMessageDate g of
             None \<Rightarrow> 0
           | Some d \<Rightarrow>
               (let oneHourAgo = now - 60 * 60 * 1000
                in if d > oneHourAgo then min (ga_messagesCount g) 50 else 0)))"

text \<open>The loop of \<open>checkMilestone\<close>, with its early \<open>return\<close>.\<close>

fun milestoneLoop :: "rat \<Rightarrow> rat \<Rightarrow> MilestoneReward list \<Rightarrow> rat" where
  "milestoneLoop oldPoints newPoints [] = 0"
| "milestoneLoop oldPoints newPoints (milestone # rest) =
     (if oldPoints < points milestone \<and> newPoints \<ge> points milestone then bonus milestone
      else milestoneLoop oldPoints newPoints rest)"

definition checkMilestone :: "rat \<Rightarrow> rat \<Rightarrow> ITaxConfig \<Rightarrow> rat" where
  "checkMilestone oldPoints newPoints config =
     milestoneLoop oldPoints newPoints (milestoneRewards config)"

text \<open>
  \<open>calculateMessagePoints\<close> returns the points, the user document as the call leaves it in
  memory, and whether the call saved it (\<open>updateStreak\<close> ends in \<open>this.save()\<close>).
\<close>

definition calculateMessagePoints ::
  "zone \<Rightarrow> IUser \<Rightarrow> string \<Rightarrow> Ctx \<Rightarrow> int \<Rightarrow> ITaxConfig \<Rightarrow> int \<Rightarrow> int \<times> IUser \<times> bool" where
  "calculateMessagePoints zone user messageText ctx chatId config now =
     (let p0 = baseMessagePoints config;
          p1 = (if enableQualityMultiplier config
                then p0 * getQualityMultiplier messageText config else p0);
          p2 = (if isReply ctx then p1 + replyBonus config else p1);
          first = (isFirstMessageToday zone user chatId now \<and> enableDailyBonus config);
          p3 = (if first then p2 + dailyFirstMessageBonus config else p2);
          user1 = (if first then updateStreak zone now user else user);
          p4 = (if enableStreakMultiplier config
                then p3 * getStreakMultiplier (dailyStreak user1) config else p3);
          p5 = (if enableTimeMultiplier config
                then p4 * getTimeMultiplier zone config now else p4);
          hourlyMessages = getHourlyMessageCount user1 chatId now;
          p6 = (if of_int hourlyMessages > diminishingReturnsThreshold config
                then p5 * diminishingReturnsFactor config else p5)
      in (max 1 (Math_round p6), user1, first))"

text \<open>
  The daily-limit check of \<open>processMessagePoints\<close>: \<open>None\<close> when the check returns 0,
  otherwise the user document with the entry as \<open>canAwardDailyPoints\<close> left it.
\<close>

definition dailyLimitCheck :: "zone \<Rightarrow> IUser \<Rightarrow> int \<Rightarrow> ITaxConfig \<Rightarrow> int \<Rightarrow> IUser option" where
  "dailyLimitCheck zone user chatId config now =
     (case findGroupActivity chatId (groupActivity user) of
        None \<Rightarrow> Some user
      | Some g \<Rightarrow>
          if fst (canAwardDailyPoints zone g config now)
          then Some (user\<lparr> groupActivity :=
                       updateGroupActivity chatId
                         (\<lambda>g. snd (canAwardDailyPoints zone g config now)) (groupActivity user) \<rparr>)
          else None)"

text \<open>
  \<open>processMessagePoints\<close>: the points returned and the stored user document afterwards.
  \<open>found\<close> is the result of \<open>User.findOne({ userId: ctx.from.id })\<close>.
\<close>

definition processMessagePoints ::
  "zone \<Rightarrow> ITaxConfig \<Rightarrow> Ctx \<Rightarrow> string \<Rightarrow> int \<Rightarrow> IUser option \<Rightarrow> int \<times> IUser option" where
  "processMessagePoints zone config ctx messageText now found =
     (case (ctx_from ctx, ctx_chat ctx) of
        (Some sender, Some chatId) \<Rightarrow>
          (case found of
             None \<Rightarrow> (0, None)
           | Some user \<Rightarrow>
               if \<not> isVerified user then (0, Some user)
               else if \<not> canAwardPoints user config now then (0, Some user)
               else
                 (case dailyLimitCheck zone user chatId config now of
                    None \<Rightarrow> (0, Some user)
                  | Some user1 \<Rightarrow>
                      (case calculateMessagePoints zone user1 messageText ctx chatId config now of
                         (pts, user2, saved) \<Rightarrow>
                           if pts \<le> 0 then (0, Some (if saved then user2 else user))
                           else
                             (let user3 = awardPoints (of_int pts) (Some chatId) now user2;
                                  user4 = incrementMessages (Some chatId) now user3;
                                  user5 =
                                    (if enableMilestoneRewards config then
                                       (let milestoneBonus =
                                              checkMilestone (taxPoints user4 - of_int pts)
                                                (taxPoints user4) config
                                        in if milestoneBonus > 0
                                           then awardPoints milestoneBonus None now user4
                                           else user4)
                                     else user4)
                              in (pts, Some user5)))))
      | _ \<Rightarrow> (0, found))"

section \<open>services/TaxConfigService.ts\<close>

text \<open>
  A stored configuration is a configuration with the \<open>_id\<close> of its document. The
  collection is the list of its documents in insertion order. The cache and the change
  listeners of the service, which no statement below reads, are left out.
\<close>

record ITaxConfigDocument = ITaxConfig +
  doc_id :: nat

text \<open>
  \<open>Partial<ITaxConfig>\<close>: every field may be absent. A field \<open>upd_f\<close> is \<open>None\<close> when the
  object has no key \<open>f\<close>.
\<close>

record ITaxConfigPartial =
  upd_version :: "int option"
  upd_lastUpdated :: "int option"
  upd_updatedBy :: "int option"
  upd_isActive :: "bool option"
  upd_welcomeBonus :: "rat option"
  upd_baseMessagePoints :: "rat option"
  upd_dailyFirstMessageBonus :: "rat option"
  upd_minMessageLength :: "rat option"
  upd_qualityMessageLength :: "rat option"
  upd_qualityMultiplier :: "rat option"
  upd_replyBonus :: "rat option"
  upd_streakMultipliers :: "StreakMultiplier list option"
  upd_maxStreakMultiplier :: "rat option"
  upd_cooldownSeconds :: "rat option"
  upd_maxPointsPerHour :: "rat option"
  upd_maxPointsPerDay :: "rat option"
  upd_diminishingReturnsThreshold :: "rat option"
  upd_diminishingReturnsFactor :: "rat option"
  upd_milestoneRewards :: "MilestoneReward list option"
  upd_weekendMultiplier :: "rat option"
  upd_nightOwlBonus :: "NightOwlBonus option"
  upd_enableWelcomeBonus :: "bool option"
  upd_enableDailyBonus :: "bool option"
  upd_enableStreakMultiplier :: "bool option"
  upd_enableQualityMultiplier :: "bool option"
  upd_enableTimeMultiplier :: "bool option"
  upd_enableMilestoneRewards :: "bool option"
  upd_enablePointNotifications :: "bool option"
  upd_notificationThreshold :: "rat option"
  upd_enableRankNotifications :: "bool option"
  upd_enableStreakNotifications :: "bool option"
  upd_groupOverrides :: "GroupOverride list option"

text \<open>The empty object \<open>{}\<close>.\<close>

definition emptyPartial :: ITaxConfigPartial where
  "emptyPartial =
     \<lparr> upd_version = None, upd_lastUpdated = None, upd_updatedBy = None,
       upd_isActive = None, upd_welcomeBonus = None, upd_baseMessagePoints = None,
       upd_dailyFirstMessageBonus = None, upd_minMessageLength = None,
       upd_qualityMessageLength = None, upd_qualityMultiplier = None,
       upd_replyBonus = None, upd_streakMultipliers = None, upd_maxStreakMultiplier = None,
       upd_cooldownSeconds = None, upd_maxPointsPerHour = None, upd_maxPointsPerDay = None,
       upd_diminishingReturnsThreshold = None, upd_diminishingReturnsFactor = None,
       upd_milestoneRewards = None, upd_weekendMultiplier = None, upd_nightOwlBonus = None,
       upd_enableWelcomeBonus = None, upd_enableDailyBonus = None,
       upd_enableStreakMultiplier = None, upd_enableQualityMultiplier = None,
       upd_enableTimeMultiplier = None, upd_enableMilestoneRewards = None,
       upd_enablePointNotifications = None, upd_notificationThreshold = None,
       upd_enableRankNotifications = None, upd_enableStreakNotifications = None,
       upd_groupOverrides = None \<rparr>"

text \<open>
  One round of the loop over \<open>numericFields\<close>: a number within the bounds is kept, any
  other is dropped (with a warning).
\<close>

definition numericField :: "rat \<Rightarrow> rat \<Rightarrow> rat option \<Rightarrow> rat option" where
  "numericField lo hi value =
     (case value of
        None \<Rightarrow> None
      | Some x \<Rightarrow> if x \<ge> lo \<and> x \<le> hi then Some x else None)"

definition validNightOwlBonus :: "NightOwlBonus \<Rightarrow> bool" where
  "validNightOwlBonus b \<longleftrightarrow>
     startHour b \<ge> 0 \<and> startHour b \<le> 23 \<and> endHour b \<ge> 0 \<and> endHour b \<le> 23
     \<and> nightBonus b \<ge> 1 \<and> nightBonus b \<le> 5"

text \<open>
  \<open>validateConfigUpdates\<close> starts from \<open>{}\<close> and copies the fields it accepts:
  \<open>version\<close>, \<open>lastUpdated\<close>, \<open>updatedBy\<close> and \<open>isActive\<close> are never copied. \<open>Array.sort\<close>
  is stable, as \<open>sort_key\<close> is.
\<close>

definition validateConfigUpdates :: "ITaxConfigPartial \<Rightarrow> ITaxConfigPartial" where
  "validateConfigUpdates updates =
     \<lparr> upd_version = None, upd_lastUpdated = None, upd_updatedBy = None, upd_isActive = None,
       upd_welcomeBonus = numericField 0 10000 (upd_welcomeBonus updates),
       upd_baseMessagePoints = numericField 0 100 (upd_baseMessagePoints updates),
       upd_dailyFirstMessageBonus = numericField 0 1000 (upd_dailyFirstMessageBonus updates),
       upd_minMessageLength = numericField 1 100 (upd_minMessageLength updates),
       upd_qualityMessageLength = numericField 1 500 (upd_qualityMessageLength updates),
       upd_qualityMultiplier = numericField 1 5 (upd_qualityMultiplier updates),
       upd_replyBonus = numericField 0 50 (upd_replyBonus updates),
       upd_streakMultipliers =
         (case upd_streakMultipliers updates of
            None \<Rightarrow> None
          | Some sms \<Rightarrow>
              if list_all (\<lambda>sm. days sm \<ge> 1 \<and> multiplier sm \<ge> 1 \<and> multiplier sm \<le> 10) sms
              then Some (sort_key days sms) else None),
       upd_maxStreakMultiplier = numericField 1 10 (upd_maxStreakMultiplier updates),
       upd_cooldownSeconds = numericField 0 3600 (upd_cooldownSeconds updates),
       upd_maxPointsPerHour = numericField 1 10000 (upd_maxPointsPerHour updates),
       upd_maxPointsPerDay = numericField 1 50000 (upd_maxPointsPerDay updates),
       upd_diminishingReturnsThreshold = numericField 1 1000 (upd_diminishingReturnsThreshold updates),
       upd_diminishingReturnsFactor = numericField (1 / 10) 1 (upd_diminishingReturnsFactor updates),
       upd_milestoneRewards =
         (case upd_milestoneRewards updates of
            None \<Rightarrow> None
          | Some mrs \<Rightarrow>
              if list_all (\<lambda>mr. points mr \<ge> 1 \<and> bonus mr \<ge> 1) mrs
              then Some (sort_key points mrs) else None),
       upd_weekendMultiplier = numericField 1 5 (upd_weekendMultiplier updates),
       upd_nightOwlBonus =
         (case upd_nightOwlBonus updates of
            None \<Rightarrow> None
          | Some b \<Rightarrow> if validNightOwlBonus b then Some b else None),
       upd_enableWelcomeBonus = upd_enableWelcomeBonus updates,
       upd_enableDailyBonus = upd_enableDailyBonus updates,
       upd_enableStreakMultiplier = upd_enableStreakMultiplier updates,
       upd_enableQualityMultiplier = upd_enableQualityMultiplier updates,
       upd_enableTimeMultiplier = upd_enableTimeMultiplier updates,
       upd_enableMilestoneRewards = upd_enableMilestoneRewards updates,
       upd_enablePointNotifications = upd_enablePointNotifications updates,
       upd_notificationThreshold = numericField 0 1000 (upd_notificationThreshold updates),
       upd_enableRankNotifications = upd_enableRankNotifications updates,
       upd_enableStreakNotifications = upd_enableStreakNotifications updates,
       upd_groupOverrides = upd_groupOverrides updates \<rparr>"

text \<open>A key of a spread object: the later object wins where it has the key.\<close>

definition orElse :: "'a option \<Rightarrow> 'a \<Rightarrow> 'a" where
  "orElse later earlier = (case later of None \<Rightarrow> earlier | Some v \<Rightarrow> v)"

text \<open>\<open>{ ...config, ...partial }\<close> on the fields of a configuration.\<close>

definition spread :: "ITaxConfigDocument \<Rightarrow> ITaxConfigPartial \<Rightarrow> ITaxConfigDocument" where
  "spread c p =
     c\<lparr> version := orElse (upd_version p) (version c),
        lastUpdated := orElse (upd_lastUpdated p) (lastUpdated c),
        updatedBy := (case upd_updatedBy p of None \<Rightarrow> updatedBy c | Some n \<Rightarrow> Some n),
        isActive := orElse (upd_isActive p) (isActive c),
        welcomeBonus := orElse (upd_welcomeBonus p) (welcomeBonus c),
        baseMessagePoints := orElse (upd_baseMessagePoints p) (baseMessagePoints c),
        dailyFirstMessageBonus := orElse (upd_dailyFirstMessageBonus p) (dailyFirstMessageBonus c),
        minMessageLength := orElse (upd_minMessageLength p) (minMessageLength c),
        qualityMessageLength := orElse (upd_qualityMessageLength p) (qualityMessageLength c),
        qualityMultiplier := orElse (upd_qualityMultiplier p) (qualityMultiplier c),
        replyBonus := orElse (upd_replyBonus p) (replyBonus c),
        streakMultipliers := orElse (upd_streakMultipliers p) (streakMultipliers c),
        maxStreakMultiplier := orElse (upd_maxStreakMultiplier p) (maxStreakMultiplier c),
        cooldownSeconds := orElse (upd_cooldownSeconds p) (cooldownSeconds c),
        maxPointsPerHour := orElse (upd_maxPointsPerHour p) (maxPointsPerHour c),
        maxPointsPerDay := orElse (upd_maxPointsPerDay p) (maxPointsPerDay c),
        diminishingReturnsThreshold := orElse (upd_diminishingReturnsThreshold p) (diminishingReturnsThreshold c),
        diminishingReturnsFactor := orElse (upd_diminishingReturnsFactor p) (diminishingReturnsFactor c),
        milestoneRewards := orElse (upd_milestoneRewards p) (milestoneRewards c),
        weekendMultiplier := orElse (upd_weekendMultiplier p) (weekendMultiplier c),
        nightOwlBonus := orElse (upd_nightOwlBonus p) (nightOwlBonus c),
        enableWelcomeBonus := orElse (upd_enableWelcomeBonus p) (enableWelcomeBonus c),
        enableDailyBonus := orElse (upd_enableDailyBonus p) (enableDailyBonus c),
        enableStreakMultiplier := orElse (upd_enableStreakMultiplier p) (enableStreakMultiplier c),
        enableQualityMultiplier := orElse (upd_enableQualityMultiplier p) (enableQualityMultiplier c),
        enableTimeMultiplier := orElse (upd_enableTimeMultiplier p) (enableTimeMultiplier c),
        enableMilestoneRewards := orElse (upd_enableMilestoneRewards p) (enableMilestoneRewards c),
        enablePointNotifications := orElse (upd_enablePointNotifications p) (enablePointNotifications c),
        notificationThreshold := orElse (upd_notificationThreshold p) (notificationThreshold c),
        enableRankNotifications := orElse (upd_enableRankNotifications p) (enableRankNotifications c),
        enableStreakNotifications := orElse (upd_enableStreakNotifications p) (enableStreakNotifications c),
        groupOverrides := orElse (upd_groupOverrides p) (groupOverrides c) \<rparr>"

datatype config_error = NoActiveConfiguration | VersionNotFound int

text \<open>
  \<open>TaxConfig.findOne({ isActive: true }).sort({ version: -1 })\<close>: an active document of
  the highest version, the first stored of them.
\<close>

definition findActiveConfig :: "ITaxConfigDocument list \<Rightarrow> ITaxConfigDocument option" where
  "findActiveConfig store =
     (case filter isActive store of
        [] \<Rightarrow> None
      | d # ds \<Rightarrow> Some (fold (\<lambda>x best. if version x > version best then x else best) ds d))"

text \<open>The \<open>_id\<close> of a created document differs from every stored one.\<close>

definition freshId :: "ITaxConfigDocument list \<Rightarrow> nat" where
  "freshId store = Suc (fold max (map doc_id store) 0)"

text \<open>\<open>createDefaultConfig\<close>: the document that \<open>TaxConfig.create\<close> makes of the default.\<close>

definition createDefaultConfig :: "int \<Rightarrow> ITaxConfigDocument list \<Rightarrow> ITaxConfigDocument" where
  "createDefaultConfig now store =
     ITaxConfig.extend (getDefaultConfig now) (ITaxConfigDocument.fields (freshId store))"

text \<open>\<open>TaxConfig.updateMany({ _id: { $ne: id } }, { isActive: false })\<close>.\<close>

definition deactivateOthers :: "nat \<Rightarrow> ITaxConfigDocument list \<Rightarrow> ITaxConfigDocument list" where
  "deactivateOthers newId store =
     map (\<lambda>d. if doc_id d \<noteq> newId then d\<lparr> isActive := False \<rparr> else d) store"

text \<open>
  \<open>updateConfig\<close> and \<open>revertToVersion\<close>: the thrown error, or the configuration returned
  and the collection afterwards.
\<close>

definition updateConfig ::
  "ITaxConfigPartial \<Rightarrow> int option \<Rightarrow> int \<Rightarrow> ITaxConfigDocument list
     \<Rightarrow> config_error + (ITaxConfigDocument \<times> ITaxConfigDocument list)" where
  "updateConfig updates updatedBy' now store =
     (let validatedUpdates = validateConfigUpdates updates
      in case findActiveConfig store of
           None \<Rightarrow> Inl NoActiveConfiguration
         | Some currentConfig \<Rightarrow>
             (let newVersion = version currentConfig + 1;
                  newConfig = (spread currentConfig validatedUpdates)
                    \<lparr> version := newVersion, lastUpdated := now, updatedBy := updatedBy',
                      doc_id := freshId store \<rparr>
              in Inr (newConfig, deactivateOthers (doc_id newConfig) (store @ [newConfig]))))"

text \<open>\<open>Math.max(...xs)\<close> of a non-empty array.\<close>

definition Math_max :: "int list \<Rightarrow> int" where
  "Math_max xs = fold max (tl xs) (hd xs)"

definition revertToVersion ::
  "int \<Rightarrow> int option \<Rightarrow> int \<Rightarrow> ITaxConfigDocument list
     \<Rightarrow> config_error + (ITaxConfigDocument \<times> ITaxConfigDocument list)" where
  "revertToVersion version' updatedBy' now store =
     (case find (\<lambda>d. version d = version') store of
        None \<Rightarrow> Inl (VersionNotFound version')
      | Some targetConfig \<Rightarrow>
          (let existingConfigs = map version store;
               newVersion = (if length existingConfigs > 0 then Math_max existingConfigs + 1
                             else 1);
               revertedConfig = targetConfig
                 \<lparr> version := newVersion, lastUpdated := now, updatedBy := updatedBy',
                   isActive := True, doc_id := freshId store \<rparr>
           in Inr (revertedConfig,
                   deactivateOthers (doc_id revertedConfig) (store @ [revertedConfig]))))"

section \<open>services/VerificationService.ts\<close>

subsection \<open>models/VerificationSession.ts\<close>

record IVerificationSession =
  vs_userId :: int
  vs_groupId :: int
  verificationCode :: string
  isCompleted :: bool
  expiresAt :: int
  messageId :: "int option"

subsection \<open>The welcome bonus\<close>


subsection \<open>The challenge response\<close>



text \<open>
  The filter of \<open>VerificationSession.findOne\<close> in \<open>processVerification\<close>: the session of
  the user and the group with the token as code, not completed.
\<close>

definition pendingSession :: "int \<Rightarrow> int \<Rightarrow> string \<Rightarrow> IVerificationSession \<Rightarrow> bool" where
  "pendingSession uid gid code s \<longleftrightarrow>
     vs_userId s = uid \<and> vs_groupId s = gid \<and> verificationCode s = code \<and> \<not> isCompleted s"



section \<open>Concrete inputs\<close>

text \<open>
  The inputs at which the statements below are evaluated: the default configuration, a
  verified member 42 with the schema's defaults, a plain text message of member 42 in
  group 7, the zones at a constant offset from UTC, and three instants: Monday
  2022-01-10 at 12:00 and at 01:00, and Saturday 2022-01-08 at 23:30 (UTC).
\<close>

definition fixedOffset :: "int \<Rightarrow> zone" where
  "fixedOffset offset t isUTC = offset"

definition utc :: zone where
  "utc = fixedOffset 0"

definition defaultConfig :: ITaxConfig where
  "defaultConfig = getDefaultConfig 0"

definition member :: IUser where
  "member = (newUser 42)\<lparr> isVerified := True \<rparr>"

definition groupMessage :: Ctx where
  "groupMessage = \<lparr> ctx_from = Some 42, ctx_chat = Some 7, isReply = False \<rparr>"

definition mondayNoon :: int where
  "mondayNoon = 1641816000000"

definition mondayOneAM :: int where
  "mondayOneAM = 1641776400000"

definition saturdayLate :: int where
  "saturdayLate = 1641684600000"

text \<open>
  Member 42 with an entry for group 7 whose daily counter stands at the default cap of
  500, reset one hour before Monday noon; and member 42 with 950 points.
\<close>

definition cappedMember :: IUser where
  "cappedMember =
     member\<lparr> groupActivity :=
       [\<lparr> ga_groupId = 7, ga_messagesCount = 3, pointsEarned = 500,
          lastMessageDate = Some (mondayNoon - 3600000), dailyPoints = 500,
          lastDailyReset = Some (mondayNoon - 3600000) \<rparr>] \<rparr>"

definition nearMilestone :: IUser where
  "nearMilestone = member\<lparr> taxPoints := 950, totalPointsEarned := 950 \<rparr>"

text \<open>The default configuration with the milestone rewards switched off.\<close>

definition milestonesOff :: ITaxConfig where
  "milestonesOff = defaultConfig\<lparr> enableMilestoneRewards := False \<rparr>"

text \<open>
  A collection holding the default configuration alone, and the collection after an
  update of \<open>welcomeBonus\<close> to 600 by administrator 1.
\<close>

definition firstStore :: "ITaxConfigDocument list" where
  "firstStore = [createDefaultConfig 0 []]"

definition secondStore :: "ITaxConfigDocument list" where
  "secondStore =
     (case updateConfig (emptyPartial\<lparr> upd_welcomeBonus := Some 600 \<rparr>) (Some 1) 1000 firstStore of
        Inl e \<Rightarrow> []
      | Inr (new, store) \<Rightarrow> store)"




text \<open>
  Europe/Berlin in the spring of 2022: one hour ahead of UTC until Sunday 2022-03-27 at
  01:00 UTC, two hours ahead from then on. That Sunday has 23 hours: the local hour from
  02:00 is skipped, and a local time value up to 03:00 is read at the earlier offset.
  The three instants are 12:00 local time on Saturday 2022-03-26, on Sunday 2022-03-27
  and on Monday 2022-03-28. The user has a streak of 4.
\<close>

definition berlinSpring2022 :: zone where
  "berlinSpring2022 t isUTC =
     (if isUTC then (if t < 1648342800000 then 3600000 else 7200000)
      else (if t < 1648350000000 then 3600000 else 7200000))"

definition saturdayNoonBerlin :: int where
  "saturdayNoonBerlin = 1648292400000"

definition sundayNoonBerlin :: int where
  "sundayNoonBerlin = 1648375200000"

definition mondayNoonBerlin :: int where
  "mondayNoonBerlin = 1648461600000"

definition streakOfFour :: "int \<Rightarrow> IUser" where
  "streakOfFour stored = (newUser 42)\<lparr> dailyStreak := 4, lastStreakDate := Some stored \<rparr>"



section \<open>Properties\<close>

subsection \<open>Fields that the helper methods keep or set\<close>

lemma upsertGroupActivity_fields:
  "taxPoints (upsertGroupActivity gid f fresh u) = taxPoints u"
  "totalPointsEarned (upsertGroupActivity gid f fresh u) = totalPointsEarned u"
  "lastPointAward (upsertGroupActivity gid f fresh u) = lastPointAward u"
  "dailyStreak (upsertGroupActivity gid f fresh u) = dailyStreak u"
  "lastStreakDate (upsertGroupActivity gid f fresh u) = lastStreakDate u"
  "isVerified (upsertGroupActivity gid f fresh u) = isVerified u"
  by (simp_all add: upsertGroupActivity_def split: option.split)

lemma awardPoints_taxPoints:
  "taxPoints (awardPoints amount groupId now u) = taxPoints u + amount"
  by (simp add: awardPoints_def Let_def upsertGroupActivity_fields split: option.split)

lemma awardPoints_totalPointsEarned:
  "totalPointsEarned (awardPoints amount groupId now u) = totalPointsEarned u + amount"
  by (simp add: awardPoints_def Let_def upsertGroupActivity_fields split: option.split)

lemma awardPoints_lastPointAward:
  "lastPointAward (awardPoints amount groupId now u) = Some now"
  by (simp add: awardPoints_def Let_def upsertGroupActivity_fields split: option.split)

lemma incrementMessages_fields:
  "taxPoints (incrementMessages groupId now u) = taxPoints u"
  "totalPointsEarned (incrementMessages groupId now u) = totalPointsEarned u"
  "lastPointAward (incrementMessages groupId now u) = lastPointAward u"
  by (simp_all add: incrementMessages_def Let_def upsertGroupActivity_fields
        split: option.split)

subsection \<open>Calendar days at a constant offset\<close>

lemma startOfDay_fixedOffset:
  "startOfDay (fixedOffset offset) d = msPerDay * ((d + offset) div msPerDay) - offset"
  by (simp add: startOfDay_def toUTC_def LocalTime_def fixedOffset_def)

lemma startOfDay_diff:
  "startOfDay (fixedOffset offset) a - startOfDay (fixedOffset offset) b =
     msPerDay * ((a + offset) div msPerDay - (b + offset) div msPerDay)"
  by (simp add: startOfDay_fixedOffset algebra_simps)

lemma daysDiff_eq:
  "(startOfDay (fixedOffset offset) a - startOfDay (fixedOffset offset) b) div msPerDay =
     (a + offset) div msPerDay - (b + offset) div msPerDay"
proof -
  have "msPerDay \<noteq> 0" by (simp add: msPerDay_def)
  then show ?thesis by (simp add: startOfDay_diff)
qed

subsection \<open>The shape of \<open>processMessagePoints\<close>\<close>

lemma calculateMessagePoints_ge1:
  "1 \<le> fst (calculateMessagePoints zone user messageText ctx chatId config now)"
  by (simp add: calculateMessagePoints_def Let_def)

lemma processMessagePoints_awarded:
  assumes "ctx_from ctx = Some sender" and "ctx_chat ctx = Some chatId"
    and "isVerified user" and "canAwardPoints user config now"
    and "dailyLimitCheck zone user chatId config now = Some user1"
    and "calculateMessagePoints zone user1 messageText ctx chatId config now = (pts, user2, saved)"
    and "user4 = incrementMessages (Some chatId) now
                   (awardPoints (of_int pts) (Some chatId) now user2)"
  shows "processMessagePoints zone config ctx messageText now (Some user) =
           (pts, Some (if enableMilestoneRewards config
                          \<and> checkMilestone (taxPoints user4 - of_int pts) (taxPoints user4) config > 0
                       then awardPoints
                              (checkMilestone (taxPoints user4 - of_int pts) (taxPoints user4) config)
                              None now user4
                       else user4))"
proof -
  from calculateMessagePoints_ge1 [of zone user1 messageText ctx chatId config now] assms(6)
  have "\<not> pts \<le> 0" by simp
  with assms show ?thesis
    by (simp add: processMessagePoints_def Let_def)
qed

lemma processMessagePoints_rejected:
  assumes "ctx_from ctx = None \<or> ctx_chat ctx = None \<or> found = None
      \<or> (\<exists>user. found = Some user \<and>
            (\<not> isVerified user \<or> \<not> canAwardPoints user config now
              \<or> (\<exists>chatId. ctx_chat ctx = Some chatId
                    \<and> dailyLimitCheck zone user chatId config now = None)))"
  shows "processMessagePoints zone config ctx messageText now found = (0, found)"
  using assms
  by (auto simp add: processMessagePoints_def split: option.split)

lemma processMessagePoints_positive:
  assumes "0 < fst (processMessagePoints zone config ctx messageText now found)"
  obtains sender chatId user user1 where
    "ctx_from ctx = Some sender" "ctx_chat ctx = Some chatId" "found = Some user"
    "isVerified user" "canAwardPoints user config now"
    "dailyLimitCheck zone user chatId config now = Some user1"
  using assms
  by (auto simp add: processMessagePoints_def split: option.splits if_splits)

subsection \<open>The award ledger\<close>

text \<open>
  C7. An award keeps \<open>taxPoints \<le> totalPointsEarned\<close>: \<open>awardPoints\<close> adds the same amount
  to both counters, whatever the group argument, and a newly created user starts with
  both at 0.
\<close>

theorem awardPoints_keeps_taxPoints_le_total:
  assumes "taxPoints u \<le> totalPointsEarned u" and "0 \<le> amount"
  shows "taxPoints (awardPoints amount groupId now u)
           \<le> totalPointsEarned (awardPoints amount groupId now u)
       \<and> taxPoints (awardPoints amount groupId now u) = taxPoints u + amount
       \<and> totalPointsEarned (awardPoints amount groupId now u) = totalPointsEarned u + amount
       \<and> taxPoints (newUser uid) = 0 \<and> totalPointsEarned (newUser uid) = 0"
  using assms by (simp add: awardPoints_taxPoints awardPoints_totalPointsEarned newUser_def)

theorem awardPoints_keeps_taxPoints_le_total_witness:
  "taxPoints (awardPoints 500 (Some 7) 1000 (newUser 42)) = 500
   \<and> totalPointsEarned (awardPoints 500 (Some 7) 1000 (newUser 42)) = 500"
proof -
  have h: "taxPoints (newUser 42) \<le> totalPointsEarned (newUser 42)"
    by (simp add: newUser_def)
  have z: "taxPoints (newUser 42) = 0" "totalPointsEarned (newUser 42) = 0"
    by (simp_all add: newUser_def)
  from awardPoints_keeps_taxPoints_le_total [OF h, of 500 "Some 7" 1000 42]
  show ?thesis by (simp add: z)
qed

subsection \<open>The streak\<close>

text \<open>
  What \<open>updateStreak\<close> does in a zone at a constant offset from UTC: it always stamps
  \<open>lastStreakDate\<close> with the current time; the streak becomes 1 when no date was stored;
  it grows by 1 when the stored date's day is yesterday; it becomes 1 again when that day
  is more than one day back; it stays when that day is today.
\<close>

lemma updateStreak_fixedOffset:
  "lastStreakDate (updateStreak (fixedOffset offset) now u) = Some now
   \<and> (lastStreakDate u = None \<longrightarrow> dailyStreak (updateStreak (fixedOffset offset) now u) = 1)
   \<and> (\<forall>l. lastStreakDate u = Some l \<longrightarrow>
         (startOfDay (fixedOffset offset) l = startOfDay (fixedOffset offset) now - msPerDay \<longrightarrow>
            dailyStreak (updateStreak (fixedOffset offset) now u) = dailyStreak u + 1)
       \<and> (startOfDay (fixedOffset offset) l < startOfDay (fixedOffset offset) now - msPerDay \<longrightarrow>
            dailyStreak (updateStreak (fixedOffset offset) now u) = 1)
       \<and> (startOfDay (fixedOffset offset) l = startOfDay (fixedOffset offset) now \<longrightarrow>
            dailyStreak (updateStreak (fixedOffset offset) now u) = dailyStreak u))"
proof -
  have last: "lastStreakDate (updateStreak (fixedOffset offset) now u) = Some now"
    by (simp add: updateStreak_def Let_def split: option.split)
  have first: "lastStreakDate u = None \<Longrightarrow> dailyStreak (updateStreak (fixedOffset offset) now u) = 1"
    by (simp add: updateStreak_def Let_def)
  have pos: "0 < msPerDay" by (simp add: msPerDay_def)
  {
    fix l assume l: "lastStreakDate u = Some l"
    let ?d = "(now + offset) div msPerDay - (l + offset) div msPerDay"
    have streak: "dailyStreak (updateStreak (fixedOffset offset) now u) =
        (if ?d = 1 then dailyStreak u + 1 else if ?d > 1 then 1 else dailyStreak u)"
      by (simp add: updateStreak_def Let_def l daysDiff_eq)
    have diff: "startOfDay (fixedOffset offset) now - startOfDay (fixedOffset offset) l = msPerDay * ?d"
      by (rule startOfDay_diff)
    have a: "dailyStreak (updateStreak (fixedOffset offset) now u) = dailyStreak u + 1"
      if "startOfDay (fixedOffset offset) l = startOfDay (fixedOffset offset) now - msPerDay"
    proof -
      from that diff have "msPerDay * ?d = msPerDay * 1" by simp
      with pos have "?d = 1" by simp
      with streak show ?thesis by simp
    qed
    have b: "dailyStreak (updateStreak (fixedOffset offset) now u) = 1"
      if "startOfDay (fixedOffset offset) l < startOfDay (fixedOffset offset) now - msPerDay"
    proof -
      from that diff have "msPerDay * 1 < msPerDay * ?d" by simp
      with pos have "1 < ?d" by simp
      with streak show ?thesis by simp
    qed
    have c: "dailyStreak (updateStreak (fixedOffset offset) now u) = dailyStreak u"
      if "startOfDay (fixedOffset offset) l = startOfDay (fixedOffset offset) now"
    proof -
      from that diff have "msPerDay * ?d = msPerDay * 0" by simp
      with pos have "?d = 0" by simp
      with streak show ?thesis by simp
    qed
    note a b c
  }
  with last first show ?thesis by blast
qed

text \<open>
  C8. \<open>updateStreak\<close> does not make the transition in every zone: it floors the distance
  of two local midnights by 24 hours. In Berlin, Sunday 2022-03-27 has 23 hours. At
  Monday noon a date stored at Sunday noon lies on yesterday's local day, one day number
  below today's, and the streak of 4 stays 4 where yesterday asks for 5; a date stored at
  Saturday noon lies two local days back, and the streak becomes 5 where a gap asks
  for 1.
\<close>

theorem updateStreak_daylight_saving:
  "LocalTime berlinSpring2022 sundayNoonBerlin div msPerDay
     = LocalTime berlinSpring2022 mondayNoonBerlin div msPerDay - 1
   \<and> startOfDay berlinSpring2022 mondayNoonBerlin - startOfDay berlinSpring2022 sundayNoonBerlin
     = 23 * 60 * 60 * 1000
   \<and> dailyStreak (updateStreak berlinSpring2022 mondayNoonBerlin (streakOfFour sundayNoonBerlin))
     = 4
   \<and> LocalTime berlinSpring2022 saturdayNoonBerlin div msPerDay
     = LocalTime berlinSpring2022 mondayNoonBerlin div msPerDay - 2
   \<and> dailyStreak (updateStreak berlinSpring2022 mondayNoonBerlin (streakOfFour saturdayNoonBerlin))
     = 5"
  by code_simp

subsection \<open>The cooldown\<close>

lemma processMessagePoints_stamps_lastPointAward:
  assumes "processMessagePoints zone config ctx messageText now found = (p, Some u1)" and "0 < p"
  shows "lastPointAward u1 = Some now"
proof -
  from assms have "0 < fst (processMessagePoints zone config ctx messageText now found)" by simp
  then obtain sender chatId user user1 where
    h: "ctx_from ctx = Some sender" "ctx_chat ctx = Some chatId" "found = Some user"
       "isVerified user" "canAwardPoints user config now"
       "dailyLimitCheck zone user chatId config now = Some user1"
    by (rule processMessagePoints_positive)
  obtain pts user2 saved where
    c: "calculateMessagePoints zone user1 messageText ctx chatId config now = (pts, user2, saved)"
    by (cases "calculateMessagePoints zone user1 messageText ctx chatId config now") auto
  from processMessagePoints_awarded [OF h(1,2,4,5,6) c refl] assms(1) h(3)
  show ?thesis
    by (auto simp add: awardPoints_lastPointAward incrementMessages_fields split: if_splits)
qed

text \<open>
  C9. When less than \<open>cooldownSeconds\<close> have passed since the user's \<open>lastPointAward\<close>,
  \<open>processMessagePoints\<close> returns 0 and leaves the user as stored. A user with no
  \<open>lastPointAward\<close> passes the cooldown check. Hence, after a call that awarded points
  at \<open>t0\<close>, a call less than \<open>cooldownSeconds\<close> later returns 0.
\<close>

theorem cooldown_rejects_award:
  "(\<forall>l. lastPointAward user = Some l \<and> of_int (now - l) < cooldownSeconds config * 1000
        \<longrightarrow> processMessagePoints zone config ctx messageText now (Some user) = (0, Some user))
   \<and> (lastPointAward user = None \<longrightarrow> canAwardPoints user config now)
   \<and> (\<forall>p u1. processMessagePoints zone0 config0 ctx0 text0 t0 found0 = (p, Some u1) \<and> 0 < p
            \<and> of_int (now - t0) < cooldownSeconds config * 1000
        \<longrightarrow> processMessagePoints zone config ctx messageText now (Some u1) = (0, Some u1))"
proof -
  have blocked: "processMessagePoints zone config ctx messageText now (Some v) = (0, Some v)"
    if "lastPointAward v = Some l" and "of_int (now - l) < cooldownSeconds config * 1000"
    for v l
  proof -
    from that have "\<not> canAwardPoints v config now"
      by (simp add: canAwardPoints_def Let_def)
    then show ?thesis by (intro processMessagePoints_rejected) simp
  qed
  have free: "lastPointAward user = None \<Longrightarrow> canAwardPoints user config now"
    by (simp add: canAwardPoints_def)
  have second: "processMessagePoints zone config ctx messageText now (Some u1) = (0, Some u1)"
    if "processMessagePoints zone0 config0 ctx0 text0 t0 found0 = (p, Some u1)" and "0 < p"
      and "of_int (now - t0) < cooldownSeconds config * 1000" for p u1
    using processMessagePoints_stamps_lastPointAward [OF that(1,2)] that(3) by (rule blocked)
  from blocked free second show ?thesis by blast
qed

theorem cooldown_rejects_award_witness:
  "fst (processMessagePoints utc defaultConfig groupMessage ''hello'' mondayNoon (Some member)) = 52
   \<and> fst (processMessagePoints utc defaultConfig groupMessage ''hello again'' (mondayNoon + 10000)
           (snd (processMessagePoints utc defaultConfig groupMessage ''hello'' mondayNoon
                  (Some member)))) = 0
   \<and> canAwardPoints member defaultConfig mondayNoon"
proof -
  let ?r = "processMessagePoints utc defaultConfig groupMessage ''hello'' mondayNoon (Some member)"
  have pts: "fst ?r = 52" by code_simp
  have "snd ?r = Some (the (snd ?r))" by code_simp
  then obtain u1 where saved: "snd ?r = Some u1" ..
  from pts saved have first: "?r = (52, Some u1)"
    by (metis prod.collapse)
  have near: "rat_of_int (mondayNoon + 10000 - mondayNoon) < cooldownSeconds defaultConfig * 1000"
    by (simp add: defaultConfig_def getDefaultConfig_def)
  have none: "lastPointAward member = None"
    by (simp add: member_def newUser_def)
  from cooldown_rejects_award [of member "mondayNoon + 10000" defaultConfig utc groupMessage
      "''hello again''" utc defaultConfig groupMessage "''hello''" mondayNoon "Some member",
      THEN conjunct2, THEN conjunct2, rule_format, of 52 u1] first near
  have "processMessagePoints utc defaultConfig groupMessage ''hello again'' (mondayNoon + 10000)
          (Some u1) = (0, Some u1)"
    by simp
  with saved have second: "fst (processMessagePoints utc defaultConfig groupMessage ''hello again''
      (mondayNoon + 10000) (snd ?r)) = 0"
    by simp
  from cooldown_rejects_award [of member mondayNoon defaultConfig, THEN conjunct2, THEN conjunct1]
    none
  have "canAwardPoints member defaultConfig mondayNoon" by simp
  with pts second show ?thesis by simp
qed

subsection \<open>The time multiplier\<close>

text \<open>
  C10. The night-owl bonus multiplies exactly at the hours \<open>h\<close> with
  \<open>h \<ge> startHour \<or> h \<le> endHour\<close>, and it multiplies with the weekend multiplier when
  both apply. With the window from 22 to 6, the hours 23 and 1 have the bonus and the
  hour 12 has not.
\<close>

theorem getTimeMultiplier_nightOwl_window:
  "getTimeMultiplier zone config now =
     (if getDay zone now = 0 \<or> getDay zone now = 6 then weekendMultiplier config else 1)
     * (if of_int (getHours zone now) \<ge> startHour (nightOwlBonus config)
           \<or> of_int (getHours zone now) \<le> endHour (nightOwlBonus config)
        then nightBonus (nightOwlBonus config) else 1)
   \<and> (startHour (nightOwlBonus config) = 22 \<and> endHour (nightOwlBonus config) = 6 \<longrightarrow>
        (getHours zone now = 23 \<or> getHours zone now = 1 \<longrightarrow>
           getTimeMultiplier zone config now =
             (if getDay zone now = 0 \<or> getDay zone now = 6 then weekendMultiplier config else 1)
             * nightBonus (nightOwlBonus config))
      \<and> (getHours zone now = 12 \<longrightarrow>
           getTimeMultiplier zone config now =
             (if getDay zone now = 0 \<or> getDay zone now = 6 then weekendMultiplier config else 1)))"
  by (auto simp add: getTimeMultiplier_def Let_def)

theorem getTimeMultiplier_nightOwl_window_witness:
  "getTimeMultiplier utc defaultConfig saturdayLate = 13 / 10 * (6 / 5)
   \<and> getTimeMultiplier utc defaultConfig mondayOneAM = 6 / 5
   \<and> getTimeMultiplier utc defaultConfig mondayNoon = 1"
proof -
  have cfg: "startHour (nightOwlBonus defaultConfig) = 22 \<and> endHour (nightOwlBonus defaultConfig) = 6"
    "nightBonus (nightOwlBonus defaultConfig) = 6 / 5" "weekendMultiplier defaultConfig = 13 / 10"
    by (simp_all add: defaultConfig_def getDefaultConfig_def)
  have t: "getHours utc saturdayLate = 23" "getDay utc saturdayLate = 6"
    "getHours utc mondayOneAM = 1" "getDay utc mondayOneAM = 1"
    "getHours utc mondayNoon = 12" "getDay utc mondayNoon = 1"
    by (simp_all add: getHours_def getDay_def LocalTime_def utc_def fixedOffset_def msPerDay_def
          saturdayLate_def mondayOneAM_def mondayNoon_def)
  from getTimeMultiplier_nightOwl_window [of utc defaultConfig saturdayLate] cfg t
  have 1: "getTimeMultiplier utc defaultConfig saturdayLate = 13 / 10 * (6 / 5)" by simp
  from getTimeMultiplier_nightOwl_window [of utc defaultConfig mondayOneAM] cfg t
  have 2: "getTimeMultiplier utc defaultConfig mondayOneAM = 6 / 5" by simp
  from getTimeMultiplier_nightOwl_window [of utc defaultConfig mondayNoon] cfg t
  have 3: "getTimeMultiplier utc defaultConfig mondayNoon = 1" by simp
  from 1 2 3 show ?thesis by simp
qed

subsection \<open>Short messages\<close>

text \<open>
  C1. A message shorter than \<open>minMessageLength\<close> is not held at 0 points. Under the
  default configuration the two-character message of a verified member earns 50 points
  as the first message of the day (the daily bonus is added after the multiplication by
  0), and one minute later the same message earns 1 point (the floor \<open>Math.max(1, ...)\<close>).
\<close>

theorem short_message_is_awarded_points:
  "length ''hi'' = 2 \<and> minMessageLength defaultConfig = 5
   \<and> fst (processMessagePoints utc defaultConfig groupMessage ''hi'' mondayNoon (Some member)) = 50
   \<and> fst (processMessagePoints utc defaultConfig groupMessage ''hi'' (mondayNoon + 60000)
           (snd (processMessagePoints utc defaultConfig groupMessage ''hi'' mondayNoon
                  (Some member)))) = 1"
  by code_simp

subsection \<open>The daily counter\<close>

lemma updateGroupActivity_dailyPoints:
  assumes "\<And>g. dailyPoints (f g) = dailyPoints g"
  shows "map dailyPoints (updateGroupActivity gid f gas) = map dailyPoints gas"
  using assms by (induction gas) simp_all

lemma updateGroupActivity_dailyPoints_reset:
  assumes "\<And>g. dailyPoints (f g) = 0 \<or> dailyPoints (f g) = dailyPoints g"
  shows "set (map dailyPoints (updateGroupActivity gid f gas))
           \<subseteq> insert 0 (set (map dailyPoints gas))"
proof (induction gas)
  case Nil
  then show ?case by simp
next
  case (Cons g gs)
  from assms [of g] Cons show ?case by auto
qed

lemma upsertGroupActivity_dailyPoints:
  assumes "\<And>g. dailyPoints (f g) = dailyPoints g"
  shows "map dailyPoints (groupActivity (upsertGroupActivity gid f fresh u)) =
           map dailyPoints (groupActivity u) @
             (if findGroupActivity gid (groupActivity u) = None then [dailyPoints fresh] else [])"
  using assms
  by (simp add: upsertGroupActivity_def updateGroupActivity_dailyPoints split: option.split)

lemma awardPoints_dailyPoints:
  "map dailyPoints (groupActivity (awardPoints pts groupId now u)) =
     map dailyPoints (groupActivity u) @
       (if \<exists>gid. groupId = Some gid \<and> gid \<noteq> 0 \<and> findGroupActivity gid (groupActivity u) = None
        then [0] else [])"
  by (cases groupId) (simp_all add: awardPoints_def Let_def upsertGroupActivity_dailyPoints)

lemma incrementMessages_dailyPoints:
  "map dailyPoints (groupActivity (incrementMessages groupId now u)) =
     map dailyPoints (groupActivity u) @
       (if \<exists>gid. groupId = Some gid \<and> gid \<noteq> 0 \<and> findGroupActivity gid (groupActivity u) = None
        then [0] else [])"
  by (cases groupId) (simp_all add: incrementMessages_def Let_def upsertGroupActivity_dailyPoints)

lemma updateStreak_groupActivity: "groupActivity (updateStreak zone now u) = groupActivity u"
  by (simp add: updateStreak_def Let_def split: option.split)

lemma canAwardDailyPoints_dailyPoints:
  "dailyPoints (snd (canAwardDailyPoints zone g config now)) =
     (if lastDailyReset g = None \<or> (\<exists>r. lastDailyReset g = Some r \<and> r < startOfDay zone now)
      then 0 else dailyPoints g)"
  by (cases "lastDailyReset g") (simp_all add: canAwardDailyPoints_def Let_def)

lemma calculateMessagePoints_groupActivity:
  "groupActivity (fst (snd (calculateMessagePoints zone user messageText ctx chatId config now)))
     = groupActivity user"
  by (simp add: calculateMessagePoints_def Let_def updateStreak_groupActivity)

lemma dailyLimitCheck_dailyPoints:
  assumes "dailyLimitCheck zone user chatId config now = Some user1"
  shows "set (map dailyPoints (groupActivity user1))
           \<subseteq> insert 0 (set (map dailyPoints (groupActivity user)))"
proof (cases "findGroupActivity chatId (groupActivity user)")
  case None
  with assms show ?thesis by (auto simp add: dailyLimitCheck_def)
next
  case (Some g)
  have "set (map dailyPoints (updateGroupActivity chatId
               (\<lambda>g. snd (canAwardDailyPoints zone g config now)) (groupActivity user)))
          \<subseteq> insert 0 (set (map dailyPoints (groupActivity user)))"
    by (rule updateGroupActivity_dailyPoints_reset) (simp add: canAwardDailyPoints_dailyPoints)
  moreover from assms Some
  have "groupActivity user1 = updateGroupActivity chatId
          (\<lambda>g. snd (canAwardDailyPoints zone g config now)) (groupActivity user)"
    by (auto simp add: dailyLimitCheck_def split: if_splits)
  ultimately show ?thesis by (simp only:)
qed

lemma processMessagePoints_zero_or_positive:
  "processMessagePoints zone config ctx messageText now found = (0, found)
   \<or> 0 < fst (processMessagePoints zone config ctx messageText now found)"
proof (cases "ctx_from ctx = None \<or> ctx_chat ctx = None \<or> found = None
      \<or> (\<exists>user. found = Some user \<and>
            (\<not> isVerified user \<or> \<not> canAwardPoints user config now
              \<or> (\<exists>chatId. ctx_chat ctx = Some chatId
                    \<and> dailyLimitCheck zone user chatId config now = None)))")
  case True
  then have "processMessagePoints zone config ctx messageText now found = (0, found)"
    by (rule processMessagePoints_rejected)
  then show ?thesis ..
next
  case False
  then obtain sender chatId user user1 where
    h: "ctx_from ctx = Some sender" "ctx_chat ctx = Some chatId" "found = Some user"
       "isVerified user" "canAwardPoints user config now"
       "dailyLimitCheck zone user chatId config now = Some user1"
    by auto
  obtain pts user2 saved where
    c: "calculateMessagePoints zone user1 messageText ctx chatId config now = (pts, user2, saved)"
    by (cases "calculateMessagePoints zone user1 messageText ctx chatId config now") auto
  from calculateMessagePoints_ge1 [of zone user1 messageText ctx chatId config now] c
  have "0 < pts" by simp
  with processMessagePoints_awarded [OF h(1,2,4,5,6) c refl] h(3)
  show ?thesis by simp
qed

lemma processMessagePoints_dailyPoints:
  assumes "processMessagePoints zone config ctx messageText now (Some user) = (p, Some u')"
  shows "set (map dailyPoints (groupActivity u'))
           \<subseteq> insert 0 (set (map dailyPoints (groupActivity user)))"
proof -
  from processMessagePoints_zero_or_positive [of zone config ctx messageText now "Some user"]
  show ?thesis
  proof
    assume "processMessagePoints zone config ctx messageText now (Some user) = (0, Some user)"
    with assms show ?thesis by auto
  next
    assume "0 < fst (processMessagePoints zone config ctx messageText now (Some user))"
    then obtain sender chatId user0 user1 where
      h: "ctx_from ctx = Some sender" "ctx_chat ctx = Some chatId" "Some user = Some user0"
         "isVerified user0" "canAwardPoints user0 config now"
         "dailyLimitCheck zone user0 chatId config now = Some user1"
      by (rule processMessagePoints_positive)
    from h(3) have u0: "user0 = user" by simp
    obtain pts user2 saved where
      c: "calculateMessagePoints zone user1 messageText ctx chatId config now = (pts, user2, saved)"
      by (cases "calculateMessagePoints zone user1 messageText ctx chatId config now") auto
    define user4 where "user4 = incrementMessages (Some chatId) now
                   (awardPoints (of_int pts) (Some chatId) now user2)"
    from calculateMessagePoints_groupActivity [of zone user1 messageText ctx chatId config now] c
    have g2: "groupActivity user2 = groupActivity user1" by simp
    have s4: "set (map dailyPoints (groupActivity user4))
                \<subseteq> insert 0 (set (map dailyPoints (groupActivity user1)))"
      unfolding user4_def
      by (auto simp add: incrementMessages_dailyPoints awardPoints_dailyPoints g2
            simp del: map_map set_map split: if_splits)
    from processMessagePoints_awarded [OF h(1,2,4,5,6) c user4_def] assms u0
    have "u' = user4 \<or> (\<exists>b. u' = awardPoints b None now user4)"
      by (auto split: if_splits)
    then have "map dailyPoints (groupActivity u') = map dailyPoints (groupActivity user4)"
      by (auto simp add: awardPoints_dailyPoints)
    then have "set (map dailyPoints (groupActivity u'))
                 = set (map dailyPoints (groupActivity user4))" by simp
    with s4 dailyLimitCheck_dailyPoints [OF h(6)] u0 show ?thesis by blast
  qed
qed

text \<open>
  C6. Nothing increments \<open>dailyPoints\<close>. \<open>awardPoints\<close> and \<open>incrementMessages\<close> keep the
  counter of every entry and push a new entry with the counter at 0; \<open>updateStreak\<close> keeps
  the entries; \<open>canAwardDailyPoints\<close> sets the counter to 0 on a new day and keeps it
  otherwise. So after \<open>processMessagePoints\<close> every counter of the stored user is 0 or a
  value that a counter had before the call.
\<close>

theorem dailyPoints_never_incremented:
  "map dailyPoints (groupActivity (awardPoints pts groupId now u)) =
     map dailyPoints (groupActivity u) @
       (if \<exists>gid. groupId = Some gid \<and> gid \<noteq> 0 \<and> findGroupActivity gid (groupActivity u) = None
        then [0] else [])
   \<and> map dailyPoints (groupActivity (incrementMessages groupId now u)) =
     map dailyPoints (groupActivity u) @
       (if \<exists>gid. groupId = Some gid \<and> gid \<noteq> 0 \<and> findGroupActivity gid (groupActivity u) = None
        then [0] else [])
   \<and> groupActivity (updateStreak zone now u) = groupActivity u
   \<and> dailyPoints (snd (canAwardDailyPoints zone g config now)) =
       (if lastDailyReset g = None \<or> (\<exists>r. lastDailyReset g = Some r \<and> r < startOfDay zone now)
        then 0 else dailyPoints g)
   \<and> (\<forall>p u'. processMessagePoints zone config ctx messageText now (Some u) = (p, Some u') \<longrightarrow>
         set (map dailyPoints (groupActivity u'))
           \<subseteq> insert 0 (set (map dailyPoints (groupActivity u))))"
  using awardPoints_dailyPoints [of pts groupId now u]
    incrementMessages_dailyPoints [of groupId now u]
    updateStreak_groupActivity [of zone now u]
    canAwardDailyPoints_dailyPoints [of zone g config now]
    processMessagePoints_dailyPoints [of zone config ctx messageText now u]
  by (intro conjI allI impI) assumption+

theorem dailyPoints_never_incremented_witness:
  "map dailyPoints (groupActivity (awardPoints 52 (Some 7) mondayNoon cappedMember)) = [500]
   \<and> map dailyPoints (groupActivity (incrementMessages (Some 7) mondayNoon member)) = [0]
   \<and> set (map dailyPoints (groupActivity (the (snd
         (processMessagePoints utc defaultConfig groupMessage ''hello'' (mondayNoon + msPerDay)
            (Some cappedMember)))))) \<subseteq> {0, 500}"
proof -
  let ?r = "processMessagePoints utc defaultConfig groupMessage ''hello'' (mondayNoon + msPerDay)
              (Some cappedMember)"
  have g: "map dailyPoints (groupActivity cappedMember) = [500]"
    "findGroupActivity 7 (groupActivity cappedMember) \<noteq> None"
    "groupActivity member = []"
    by (simp_all add: cappedMember_def member_def newUser_def findGroupActivity_def)
  have r: "?r = (fst ?r, Some (the (snd ?r)))" by code_simp
  note inst = dailyPoints_never_incremented [of 52 "Some 7" mondayNoon cappedMember utc _
      defaultConfig groupMessage "''hello''"]
  from inst g have 1:
    "map dailyPoints (groupActivity (awardPoints 52 (Some 7) mondayNoon cappedMember)) = [500]"
    by simp
  from dailyPoints_never_incremented [of _ "Some 7" mondayNoon member] g have 2:
    "map dailyPoints (groupActivity (incrementMessages (Some 7) mondayNoon member)) = [0]"
    by (simp add: findGroupActivity_def)
  from dailyPoints_never_incremented [of _ _ "mondayNoon + msPerDay" cappedMember utc _
      defaultConfig groupMessage "''hello''", THEN conjunct2, THEN conjunct2, THEN conjunct2,
      THEN conjunct2, rule_format, OF r] g(1)
  have 3: "set (map dailyPoints (groupActivity (the (snd ?r)))) \<subseteq> {0, 500}"
    by (simp only: list.set)
  from 1 2 3 show ?thesis by (intro conjI)
qed

subsection \<open>The daily cap\<close>

lemma find_append_first:
  "find P (xs @ ys) = (case find P xs of None \<Rightarrow> find P ys | Some x \<Rightarrow> Some x)"
  by (induction xs) simp_all

lemma find_updateGroupActivity:
  assumes "\<And>g. ga_groupId (f g) = ga_groupId g"
  shows "findGroupActivity gid (updateGroupActivity gid' f gas) =
           (if gid = gid' then map_option f (findGroupActivity gid gas)
            else findGroupActivity gid gas)"
  using assms by (induction gas) (auto simp add: findGroupActivity_def)

lemma upsertGroupActivity_keeps_entry:
  assumes f: "\<And>g. ga_groupId (f g) = ga_groupId g" "\<And>g. dailyPoints (f g) = dailyPoints g"
      "\<And>g. lastDailyReset (f g) = lastDailyReset g"
    and g: "findGroupActivity gid (groupActivity u) = Some g"
  shows "\<exists>g'. findGroupActivity gid (groupActivity (upsertGroupActivity gid' f fresh u)) = Some g'
            \<and> dailyPoints g' = dailyPoints g \<and> lastDailyReset g' = lastDailyReset g"
proof (cases "findGroupActivity gid' (groupActivity u)")
  case None
  with g show ?thesis
    by (simp add: upsertGroupActivity_def findGroupActivity_def find_append_first)
next
  case (Some h)
  with g f show ?thesis
    by (auto simp add: upsertGroupActivity_def find_updateGroupActivity)
qed

lemma awardPoints_keeps_entry:
  assumes "findGroupActivity gid (groupActivity u) = Some g"
  shows "\<exists>g'. findGroupActivity gid (groupActivity (awardPoints pts groupId now u)) = Some g'
            \<and> dailyPoints g' = dailyPoints g \<and> lastDailyReset g' = lastDailyReset g"
proof (cases "\<exists>gid'. groupId = Some gid' \<and> gid' \<noteq> 0")
  case True
  then obtain gid' where "groupId = Some gid'" "gid' \<noteq> 0" by auto
  then show ?thesis
    using upsertGroupActivity_keeps_entry [where gid = gid and g = g and gid' = gid'
        and u = "u\<lparr> taxPoints := taxPoints u + pts,
                  totalPointsEarned := totalPointsEarned u + pts,
                  lastActivityDate := Some now,
                  lastPointAward := Some now \<rparr>"
        and f = "\<lambda>g. g\<lparr> pointsEarned := pointsEarned g + pts, lastMessageDate := Some now \<rparr>"]
      assms
    by (simp add: awardPoints_def Let_def)
next
  case False
  with assms show ?thesis
    by (cases groupId) (auto simp add: awardPoints_def Let_def)
qed

lemma incrementMessages_keeps_entry:
  assumes "findGroupActivity gid (groupActivity u) = Some g"
  shows "\<exists>g'. findGroupActivity gid (groupActivity (incrementMessages groupId now u)) = Some g'
            \<and> dailyPoints g' = dailyPoints g \<and> lastDailyReset g' = lastDailyReset g"
proof (cases "\<exists>gid'. groupId = Some gid' \<and> gid' \<noteq> 0")
  case True
  then obtain gid' where "groupId = Some gid'" "gid' \<noteq> 0" by auto
  then show ?thesis
    using upsertGroupActivity_keeps_entry [where gid = gid and g = g and gid' = gid'
        and u = "u\<lparr> messagesCount := messagesCount u + 1 \<rparr>"
        and f = "\<lambda>g. g\<lparr> ga_messagesCount := ga_messagesCount g + 1,
                          lastMessageDate := Some now \<rparr>"]
      assms
    by (simp add: incrementMessages_def Let_def)
next
  case False
  with assms show ?thesis
    by (cases groupId) (auto simp add: incrementMessages_def Let_def)
qed

lemma canAwardDailyPoints_new_day:
  assumes "lastDailyReset g = None \<or> (\<exists>r. lastDailyReset g = Some r \<and> r < startOfDay zone now)"
  shows "canAwardDailyPoints zone g config now =
           (True, g\<lparr> dailyPoints := 0, lastDailyReset := Some now \<rparr>)"
  using assms by (auto simp add: canAwardDailyPoints_def Let_def)

lemma canAwardDailyPoints_groupId:
  "ga_groupId (snd (canAwardDailyPoints zone g config now)) = ga_groupId g"
  by (simp add: canAwardDailyPoints_def Let_def)

text \<open>
  C5. When the entry of the group has a reset date that is not before today's midnight
  and its \<open>dailyPoints\<close> has reached \<open>maxPointsPerDay\<close>, \<open>processMessagePoints\<close> returns 0
  and leaves the stored user as it is, so every later call of that day returns 0 as well.
  When the reset date is absent or before today's midnight, \<open>canAwardDailyPoints\<close> answers
  yes with the counter at 0 and the reset date at the current time; the call of a
  verified user outside the cooldown then awards points and stores the entry so reset.
\<close>

theorem daily_cap_blocks_and_resets:
  "(ctx_chat ctx = Some chatId \<and> findGroupActivity chatId (groupActivity user) = Some g
      \<and> lastDailyReset g = Some r \<and> startOfDay zone now \<le> r
      \<and> maxPointsPerDay config \<le> dailyPoints g
    \<longrightarrow> processMessagePoints zone config ctx messageText now (Some user) = (0, Some user))
   \<and> (lastDailyReset g = None \<or> (\<exists>r. lastDailyReset g = Some r \<and> r < startOfDay zone now)
    \<longrightarrow> canAwardDailyPoints zone g config now =
          (True, g\<lparr> dailyPoints := 0, lastDailyReset := Some now \<rparr>))
   \<and> (ctx_from ctx = Some sender \<and> ctx_chat ctx = Some chatId
      \<and> isVerified user \<and> canAwardPoints user config now
      \<and> findGroupActivity chatId (groupActivity user) = Some g
      \<and> (lastDailyReset g = None \<or> (\<exists>r. lastDailyReset g = Some r \<and> r < startOfDay zone now))
    \<longrightarrow> (\<exists>p u' g'. processMessagePoints zone config ctx messageText now (Some user) = (p, Some u')
           \<and> 0 < p \<and> findGroupActivity chatId (groupActivity u') = Some g'
           \<and> dailyPoints g' = 0 \<and> lastDailyReset g' = Some now))"
proof (intro conjI impI)
  assume a: "ctx_chat ctx = Some chatId \<and> findGroupActivity chatId (groupActivity user) = Some g
      \<and> lastDailyReset g = Some r \<and> startOfDay zone now \<le> r
      \<and> maxPointsPerDay config \<le> dailyPoints g"
  then have "\<not> fst (canAwardDailyPoints zone g config now)"
    by (simp add: canAwardDailyPoints_def Let_def)
  with a have "dailyLimitCheck zone user chatId config now = None"
    by (simp add: dailyLimitCheck_def)
  with a show "processMessagePoints zone config ctx messageText now (Some user) = (0, Some user)"
    by (intro processMessagePoints_rejected) simp
next
  assume "lastDailyReset g = None \<or> (\<exists>r. lastDailyReset g = Some r \<and> r < startOfDay zone now)"
  then show "canAwardDailyPoints zone g config now =
          (True, g\<lparr> dailyPoints := 0, lastDailyReset := Some now \<rparr>)"
    by (rule canAwardDailyPoints_new_day)
next
  assume a: "ctx_from ctx = Some sender \<and> ctx_chat ctx = Some chatId
      \<and> isVerified user \<and> canAwardPoints user config now
      \<and> findGroupActivity chatId (groupActivity user) = Some g
      \<and> (lastDailyReset g = None \<or> (\<exists>r. lastDailyReset g = Some r \<and> r < startOfDay zone now))"
  then have new: "canAwardDailyPoints zone g config now =
          (True, g\<lparr> dailyPoints := 0, lastDailyReset := Some now \<rparr>)"
    by (intro canAwardDailyPoints_new_day) simp
  define user1 where "user1 = user\<lparr> groupActivity := updateGroupActivity chatId
      (\<lambda>g. snd (canAwardDailyPoints zone g config now)) (groupActivity user) \<rparr>"
  from a new have check: "dailyLimitCheck zone user chatId config now = Some user1"
    by (simp add: dailyLimitCheck_def user1_def)
  from a new have e1: "findGroupActivity chatId (groupActivity user1)
      = Some (g\<lparr> dailyPoints := 0, lastDailyReset := Some now \<rparr>)"
    by (simp add: user1_def find_updateGroupActivity canAwardDailyPoints_groupId)
  obtain pts user2 saved where
    c: "calculateMessagePoints zone user1 messageText ctx chatId config now = (pts, user2, saved)"
    by (cases "calculateMessagePoints zone user1 messageText ctx chatId config now") auto
  from calculateMessagePoints_ge1 [of zone user1 messageText ctx chatId config now] c
  have pos: "0 < pts" by simp
  from calculateMessagePoints_groupActivity [of zone user1 messageText ctx chatId config now] c
  have "groupActivity user2 = groupActivity user1" by simp
  with e1 have e2: "findGroupActivity chatId (groupActivity user2)
      = Some (g\<lparr> dailyPoints := 0, lastDailyReset := Some now \<rparr>)" by simp
  define user3 where "user3 = awardPoints (of_int pts) (Some chatId) now user2"
  define user4 where "user4 = incrementMessages (Some chatId) now
      (awardPoints (of_int pts) (Some chatId) now user2)"
  from awardPoints_keeps_entry [OF e2, of "of_int pts" "Some chatId" now]
  obtain g3 where e3: "findGroupActivity chatId (groupActivity user3) = Some g3"
    "dailyPoints g3 = 0" "lastDailyReset g3 = Some now"
    by (auto simp add: user3_def)
  from incrementMessages_keeps_entry [OF e3(1), of "Some chatId" now] e3(2,3)
  obtain g4 where e4: "findGroupActivity chatId (groupActivity user4) = Some g4"
    "dailyPoints g4 = 0" "lastDailyReset g4 = Some now"
    by (auto simp add: user4_def user3_def)
  define u' where "u' = (if enableMilestoneRewards config
        \<and> checkMilestone (taxPoints user4 - of_int pts) (taxPoints user4) config > 0
      then awardPoints (checkMilestone (taxPoints user4 - of_int pts) (taxPoints user4) config)
             None now user4
      else user4)"
  from awardPoints_keeps_entry [OF e4(1), of _ None now] e4
  have "\<exists>g'. findGroupActivity chatId (groupActivity u') = Some g'
          \<and> dailyPoints g' = 0 \<and> lastDailyReset g' = Some now"
    by (auto simp add: u'_def)
  moreover from a
  have f: "ctx_from ctx = Some sender" "ctx_chat ctx = Some chatId"
    "isVerified user" "canAwardPoints user config now" by simp_all
  have "processMessagePoints zone config ctx messageText now (Some user) = (pts, Some u')"
    unfolding u'_def by (rule processMessagePoints_awarded [OF f check c user4_def])
  ultimately show "\<exists>p u' g'. processMessagePoints zone config ctx messageText now (Some user) = (p, Some u')
           \<and> 0 < p \<and> findGroupActivity chatId (groupActivity u') = Some g'
           \<and> dailyPoints g' = 0 \<and> lastDailyReset g' = Some now"
    using pos by blast
qed

theorem daily_cap_blocks_and_resets_witness:
  "processMessagePoints utc defaultConfig groupMessage ''hello'' mondayNoon (Some cappedMember)
     = (0, Some cappedMember)
   \<and> (\<exists>p u' g'. processMessagePoints utc defaultConfig groupMessage ''hello''
          (mondayNoon + msPerDay) (Some cappedMember) = (p, Some u')
        \<and> 0 < p \<and> findGroupActivity 7 (groupActivity u') = Some g'
        \<and> dailyPoints g' = 0 \<and> lastDailyReset g' = Some (mondayNoon + msPerDay))
   \<and> fst (processMessagePoints utc defaultConfig groupMessage ''hello'' (mondayNoon + msPerDay)
           (Some cappedMember)) = 52"
proof -
  let ?g = "\<lparr> ga_groupId = 7, ga_messagesCount = 3, pointsEarned = 500,
          lastMessageDate = Some (mondayNoon - 3600000), dailyPoints = 500,
          lastDailyReset = Some (mondayNoon - 3600000) \<rparr>"
  have g: "ctx_from groupMessage = Some 42" "ctx_chat groupMessage = Some 7"
    "findGroupActivity 7 (groupActivity cappedMember) = Some ?g"
    "lastDailyReset ?g = Some (mondayNoon - 3600000)"
    "isVerified cappedMember"
    by (simp_all add: groupMessage_def cappedMember_def member_def findGroupActivity_def)
  have today: "startOfDay utc mondayNoon \<le> mondayNoon - 3600000"
    and cap: "maxPointsPerDay defaultConfig \<le> dailyPoints ?g"
    and stale: "mondayNoon - 3600000 < startOfDay utc (mondayNoon + msPerDay)"
    by (simp_all add: startOfDay_def toUTC_def LocalTime_def utc_def fixedOffset_def msPerDay_def
          mondayNoon_def defaultConfig_def getDefaultConfig_def)
  have cool: "canAwardPoints cappedMember defaultConfig (mondayNoon + msPerDay)"
    by (simp add: canAwardPoints_def cappedMember_def member_def newUser_def)
  from daily_cap_blocks_and_resets [of groupMessage 7 cappedMember ?g "mondayNoon - 3600000" utc
      mondayNoon
      defaultConfig "''hello''", THEN conjunct1] g today cap
  have 1: "processMessagePoints utc defaultConfig groupMessage ''hello'' mondayNoon (Some cappedMember)
     = (0, Some cappedMember)" by blast
  from daily_cap_blocks_and_resets [of groupMessage 7 cappedMember ?g _ utc "mondayNoon + msPerDay"
      defaultConfig "''hello''" 42, THEN conjunct2, THEN conjunct2] g stale cool
  have 2: "\<exists>p u' g'. processMessagePoints utc defaultConfig groupMessage ''hello''
          (mondayNoon + msPerDay) (Some cappedMember) = (p, Some u')
        \<and> 0 < p \<and> findGroupActivity 7 (groupActivity u') = Some g'
        \<and> dailyPoints g' = 0 \<and> lastDailyReset g' = Some (mondayNoon + msPerDay)"
    by blast
  have 3: "fst (processMessagePoints utc defaultConfig groupMessage ''hello'' (mondayNoon + msPerDay)
           (Some cappedMember)) = 52" by code_simp
  from 1 2 3 show ?thesis by (intro conjI)
qed

subsection \<open>Milestones\<close>

lemma milestoneLoop_find:
  "milestoneLoop oldPoints newPoints ms =
     (case find (\<lambda>m. oldPoints < points m \<and> points m \<le> newPoints) ms of
        None \<Rightarrow> 0 | Some m \<Rightarrow> bonus m)"
  by (induction ms) simp_all

lemma find_sorted_least:
  assumes "sorted_wrt (\<lambda>a b. key a \<le> (key b :: rat)) ms" and "find P ms = Some m"
    and "m' \<in> set ms" and "P m'"
  shows "key m \<le> key m'"
  using assms
proof (induction ms)
  case Nil
  then show ?case by simp
next
  case (Cons a ms)
  then show ?case by (cases "P a") auto
qed

lemma updateStreak_taxPoints: "taxPoints (updateStreak zone now u) = taxPoints u"
  by (simp add: updateStreak_def Let_def split: option.split)

lemma calculateMessagePoints_taxPoints:
  "taxPoints (fst (snd (calculateMessagePoints zone user messageText ctx chatId config now)))
     = taxPoints user"
  by (simp add: calculateMessagePoints_def Let_def updateStreak_taxPoints)

lemma dailyLimitCheck_taxPoints:
  assumes "dailyLimitCheck zone user chatId config now = Some user1"
  shows "taxPoints user1 = taxPoints user"
  using assms by (auto simp add: dailyLimitCheck_def split: option.splits if_splits)

lemma processMessagePoints_taxPoints:
  assumes "processMessagePoints zone config ctx messageText now (Some user) = (p, Some u')"
    and "0 < p"
  shows "taxPoints u' = taxPoints user + of_int p +
           (if enableMilestoneRewards config
               \<and> 0 < checkMilestone (taxPoints user) (taxPoints user + of_int p) config
            then checkMilestone (taxPoints user) (taxPoints user + of_int p) config else 0)"
proof -
  from assms have "0 < fst (processMessagePoints zone config ctx messageText now (Some user))"
    by simp
  then obtain sender chatId user0 user1 where
    h: "ctx_from ctx = Some sender" "ctx_chat ctx = Some chatId" "Some user = Some user0"
       "isVerified user0" "canAwardPoints user0 config now"
       "dailyLimitCheck zone user0 chatId config now = Some user1"
    by (rule processMessagePoints_positive)
  from h(3) have u0: "user0 = user" by simp
  obtain pts user2 saved where
    c: "calculateMessagePoints zone user1 messageText ctx chatId config now = (pts, user2, saved)"
    by (cases "calculateMessagePoints zone user1 messageText ctx chatId config now") auto
  define user4 where "user4 = incrementMessages (Some chatId) now
                   (awardPoints (of_int pts) (Some chatId) now user2)"
  from calculateMessagePoints_taxPoints [of zone user1 messageText ctx chatId config now] c
    dailyLimitCheck_taxPoints [OF h(6)] u0
  have t2: "taxPoints user2 = taxPoints user" by simp
  then have t4: "taxPoints user4 = taxPoints user + of_int pts"
    by (simp add: user4_def incrementMessages_fields awardPoints_taxPoints)
  from processMessagePoints_awarded [OF h(1,2,4,5,6) c user4_def] assms(1) u0
  have p: "p = pts" and u': "u' = (if enableMilestoneRewards config
        \<and> checkMilestone (taxPoints user4 - of_int pts) (taxPoints user4) config > 0
      then awardPoints (checkMilestone (taxPoints user4 - of_int pts) (taxPoints user4) config)
             None now user4
      else user4)"
    by simp_all
  show ?thesis
    unfolding u' p by (simp add: t4 awardPoints_taxPoints)
qed

text \<open>
  C2, as the code has it. A call that awards \<open>p\<close> points to a user with \<open>old\<close> points
  leaves \<open>old + p\<close> points plus the milestone top-up. With \<open>enableMilestoneRewards\<close> on
  and positive bonuses in the table, the top-up is the bonus of the first entry of the
  table whose threshold lies in \<open>old < threshold \<le> old + p\<close>, and nothing when no entry
  does; in a table sorted by threshold that first entry has the lowest such threshold.
  With \<open>enableMilestoneRewards\<close> off there is no top-up. The top-up comes from a direct
  \<open>awardPoints\<close>, behind neither the cooldown nor the daily cap.
\<close>

theorem milestone_bonus_on_crossing:
  assumes "processMessagePoints zone config ctx messageText now (Some user) = (p, Some u')"
    and "0 < p"
    and "\<forall>m \<in> set (milestoneRewards config). 0 < bonus m"
  shows "taxPoints u' = taxPoints user + of_int p +
           (if enableMilestoneRewards config then
              (case find (\<lambda>m. taxPoints user < points m \<and> points m \<le> taxPoints user + of_int p)
                      (milestoneRewards config) of
                 None \<Rightarrow> 0 | Some m \<Rightarrow> bonus m)
            else 0)
       \<and> ((\<forall>m \<in> set (milestoneRewards config).
              \<not> (taxPoints user < points m \<and> points m \<le> taxPoints user + of_int p))
            \<longrightarrow> taxPoints u' = taxPoints user + of_int p)
       \<and> (sorted_wrt (\<lambda>a b. points a \<le> points b) (milestoneRewards config) \<longrightarrow>
            (\<forall>m m'. find (\<lambda>m. taxPoints user < points m \<and> points m \<le> taxPoints user + of_int p)
                      (milestoneRewards config) = Some m
                  \<and> m' \<in> set (milestoneRewards config)
                  \<and> taxPoints user < points m' \<and> points m' \<le> taxPoints user + of_int p
               \<longrightarrow> points m \<le> points m'))"
proof -
  let ?P = "\<lambda>m. taxPoints user < points m \<and> points m \<le> taxPoints user + of_int p"
  let ?ms = "milestoneRewards config"
  have cm: "checkMilestone (taxPoints user) (taxPoints user + of_int p) config =
      (case find ?P ?ms of None \<Rightarrow> 0 | Some m \<Rightarrow> bonus m)"
    by (simp add: checkMilestone_def milestoneLoop_find)
  have pos: "0 < bonus m" if "find ?P ?ms = Some m" for m
    using that assms(3) by (auto simp add: find_Some_iff)
  have 1: "taxPoints u' = taxPoints user + of_int p +
           (if enableMilestoneRewards config then
              (case find ?P ?ms of None \<Rightarrow> 0 | Some m \<Rightarrow> bonus m) else 0)"
    using processMessagePoints_taxPoints [OF assms(1,2)] pos
    by (auto simp add: cm split: option.splits)
  have 2: "taxPoints u' = taxPoints user + of_int p" if "\<forall>m \<in> set ?ms. \<not> ?P m"
  proof -
    from that have "find ?P ?ms = None" by (simp add: find_None_iff)
    with 1 show ?thesis by simp
  qed
  have 3: "points m \<le> points m'"
    if "sorted_wrt (\<lambda>a b. points a \<le> points b) ?ms" "find ?P ?ms = Some m"
      "m' \<in> set ?ms" "?P m'" for m m'
    using that by (rule find_sorted_least)
  from 1 2 3 show ?thesis by blast
qed

theorem milestone_bonus_on_crossing_witness:
  "map_option taxPoints
     (snd (processMessagePoints utc defaultConfig groupMessage ''hello'' mondayNoon
            (Some nearMilestone))) = Some (950 + 52 + 100)
   \<and> map_option taxPoints
     (snd (processMessagePoints utc defaultConfig groupMessage ''hello'' mondayNoon
            (Some (member\<lparr> taxPoints := 1050, totalPointsEarned := 1050 \<rparr>)))) = Some (1050 + 52)"
proof -
  let ?past = "member\<lparr> taxPoints := 1050, totalPointsEarned := 1050 \<rparr>"
  let ?r = "processMessagePoints utc defaultConfig groupMessage ''hello'' mondayNoon
              (Some nearMilestone)"
  let ?s = "processMessagePoints utc defaultConfig groupMessage ''hello'' mondayNoon (Some ?past)"
  have table: "milestoneRewards defaultConfig =
      [\<lparr>points = 1000, bonus = 100\<rparr>, \<lparr>points = 5000, bonus = 250\<rparr>,
       \<lparr>points = 10000, bonus = 500\<rparr>, \<lparr>points = 25000, bonus = 1000\<rparr>]"
    and on: "enableMilestoneRewards defaultConfig"
    by (simp_all add: defaultConfig_def getDefaultConfig_def)
  have positive: "\<forall>m \<in> set (milestoneRewards defaultConfig). 0 < bonus m"
    by (simp add: table)
  have t: "taxPoints nearMilestone = 950" "taxPoints ?past = 1050"
    by (simp_all add: nearMilestone_def)
  have "?r = (52, Some (the (snd ?r)))" by code_simp
  then obtain u where r: "?r = (52, Some u)" ..
  have "?s = (52, Some (the (snd ?s)))" by code_simp
  then obtain v where s: "?s = (52, Some v)" ..
  from milestone_bonus_on_crossing [OF r _ positive, THEN conjunct1]
  have "taxPoints u = 950 + 52 + 100" by (simp add: t table on)
  with r have 1: "map_option taxPoints (snd ?r) = Some (950 + 52 + 100)" by simp
  from milestone_bonus_on_crossing [OF s _ positive, THEN conjunct1]
  have "taxPoints v = 1050 + 52" by (simp add: t table on)
  with s have 2: "map_option taxPoints (snd ?s) = Some (1050 + 52)" by simp
  from 1 2 show ?thesis by (intro conjI)
qed

text \<open>
  C2 as stated fails when the milestone rewards are switched off: the award of 52 points
  takes the user from 950 to 1002, across the threshold 1000, and no bonus is added.
\<close>

theorem milestone_toggle_counterexample:
  "fst (processMessagePoints utc milestonesOff groupMessage ''hello'' mondayNoon (Some nearMilestone))
     = 52
   \<and> taxPoints nearMilestone = 950
   \<and> \<lparr>points = 1000, bonus = 100\<rparr> \<in> set (milestoneRewards milestonesOff)
   \<and> (950 :: rat) < 1000 \<and> (1000 :: rat) \<le> 950 + 52
   \<and> map_option taxPoints
        (snd (processMessagePoints utc milestonesOff groupMessage ''hello'' mondayNoon
               (Some nearMilestone))) = Some (950 + 52)"
  by code_simp

subsection \<open>Configuration versions\<close>

lemma fold_pick_in_set:
  "fold (\<lambda>x best. if P x best then x else best) ds d \<in> set (d # ds)"
proof (induction ds arbitrary: d)
  case Nil
  then show ?case by simp
next
  case (Cons a ds)
  from Cons [of "if P a d then a else d"] show ?case by auto
qed

lemma findActiveConfig_active:
  assumes "findActiveConfig store = Some c"
  shows "c \<in> set store \<and> isActive c"
proof -
  from assms obtain d ds where f: "filter isActive store = d # ds"
    and c: "c = fold (\<lambda>x best. if version x > version best then x else best) ds d"
    by (auto simp add: findActiveConfig_def split: list.splits)
  from fold_pick_in_set [of "\<lambda>x best. version x > version best" ds d] c
  have "c \<in> set (filter isActive store)" by (simp only: f)
  then show ?thesis by simp
qed

lemma findActiveConfig_None: "findActiveConfig store = None \<longleftrightarrow> filter isActive store = []"
  by (simp add: findActiveConfig_def split: list.split)

lemma fold_max_ge: "(a :: 'a :: linorder) \<le> fold max xs a \<and> (\<forall>x \<in> set xs. x \<le> fold max xs a)"
proof (induction xs arbitrary: a)
  case Nil
  then show ?case by simp
next
  case (Cons y ys)
  from Cons [of "max y a"] show ?case by (auto simp add: max_def split: if_splits)
qed

lemma freshId_fresh: "d \<in> set store \<Longrightarrow> doc_id d \<noteq> freshId store"
  using fold_max_ge [of 0 "map doc_id store"] by (fastforce simp add: freshId_def)

lemma deactivateOthers_created:
  assumes "doc_id new = freshId store"
  shows "deactivateOthers (doc_id new) (store @ [new]) =
           map (\<lambda>d. d\<lparr> isActive := False \<rparr>) store @ [new]"
  using assms freshId_fresh [of _ store] by (simp add: deactivateOthers_def)

lemma one_active:
  assumes "isActive new"
  shows "filter isActive (map (\<lambda>d. d\<lparr> isActive := False \<rparr>) store @ [new]) = [new]"
  using assms by (simp add: filter_map comp_def)

lemma validateConfigUpdates_metadata:
  "upd_version (validateConfigUpdates updates) = None"
  "upd_isActive (validateConfigUpdates updates) = None"
  by (simp_all add: validateConfigUpdates_def)

lemma spread_validated:
  "isActive (spread c (validateConfigUpdates updates)) = isActive c"
  by (simp add: spread_def validateConfigUpdates_metadata orElse_def)

lemma Math_max_ge: "xs \<noteq> [] \<Longrightarrow> x \<in> set xs \<Longrightarrow> x \<le> Math_max xs"
  using fold_max_ge [of "hd xs" "tl xs"] by (cases xs) (auto simp add: Math_max_def)

lemma Math_max_Max: "xs \<noteq> [] \<Longrightarrow> Math_max xs = Max (set xs)"
  using Max.set_eq_fold [of "hd xs" "tl xs"] by (cases xs) (simp_all add: Math_max_def)

lemma updateConfig_result:
  assumes "findActiveConfig store = Some current"
  shows "\<exists>new. updateConfig updates admin now store =
             Inr (new, map (\<lambda>d. d\<lparr> isActive := False \<rparr>) store @ [new])
           \<and> version new = version current + 1 \<and> isActive new \<and> doc_id new = freshId store"
proof -
  define new where "new = (spread current (validateConfigUpdates updates))
      \<lparr> version := version current + 1, lastUpdated := now, updatedBy := admin,
        doc_id := freshId store \<rparr>"
  have id: "doc_id new = freshId store" and v: "version new = version current + 1"
    by (simp_all add: new_def)
  from findActiveConfig_active [OF assms] have act: "isActive new"
    by (simp add: new_def spread_validated)
  have "updateConfig updates admin now store = Inr (new, deactivateOthers (doc_id new) (store @ [new]))"
    by (simp add: updateConfig_def assms Let_def new_def)
  with deactivateOthers_created [OF id] id v act show ?thesis by auto
qed

lemma revertToVersion_result:
  assumes "find (\<lambda>d. version d = v) store = Some target"
  shows "\<exists>new. revertToVersion v admin now store =
             Inr (new, map (\<lambda>d. d\<lparr> isActive := False \<rparr>) store @ [new])
           \<and> version new = Math_max (map version store) + 1 \<and> isActive new
           \<and> doc_id new = freshId store
           \<and> new = target\<lparr> version := Math_max (map version store) + 1, lastUpdated := now,
                   updatedBy := admin, isActive := True, doc_id := freshId store \<rparr>"
proof -
  from assms have ne: "store \<noteq> []" by auto
  define new where "new = target\<lparr> version := Math_max (map version store) + 1,
      lastUpdated := now, updatedBy := admin, isActive := True, doc_id := freshId store \<rparr>"
  have id: "doc_id new = freshId store" by (simp add: new_def)
  have "revertToVersion v admin now store = Inr (new, deactivateOthers (doc_id new) (store @ [new]))"
    using ne by (simp add: revertToVersion_def assms Let_def new_def)
  with deactivateOthers_created [OF id] show ?thesis by (auto simp add: new_def)
qed

text \<open>
  C4. \<open>updateConfig\<close>, when an active version exists, appends a new version numbered one
  above the active one; \<open>revertToVersion v\<close>, when version \<open>v\<close> exists, appends a new
  version numbered one above the highest stored number, which is above every stored
  number and so is not \<open>v\<close>. In both cases every document stored before is kept with all
  its fields but \<open>isActive\<close>, which becomes false, and the new version is the only active
  one. Without an active version, or without version \<open>v\<close>, the call throws and stores
  nothing.
\<close>

theorem config_versioning:
  "(\<forall>current. findActiveConfig store = Some current \<longrightarrow>
      (\<exists>new. updateConfig updates admin now store =
                Inr (new, map (\<lambda>d. d\<lparr> isActive := False \<rparr>) store @ [new])
            \<and> version new = version current + 1
            \<and> filter isActive (map (\<lambda>d. d\<lparr> isActive := False \<rparr>) store @ [new]) = [new]))
   \<and> (findActiveConfig store = None \<longrightarrow>
        updateConfig updates admin now store = Inl NoActiveConfiguration)
   \<and> (\<forall>target. find (\<lambda>d. version d = v) store = Some target \<longrightarrow>
      (\<exists>new. revertToVersion v admin now store =
                Inr (new, map (\<lambda>d. d\<lparr> isActive := False \<rparr>) store @ [new])
            \<and> version new = Max (set (map version store)) + 1
            \<and> (\<forall>d \<in> set store. version d < version new)
            \<and> version new \<noteq> v
            \<and> filter isActive (map (\<lambda>d. d\<lparr> isActive := False \<rparr>) store @ [new]) = [new]))
   \<and> (find (\<lambda>d. version d = v) store = None \<longrightarrow>
        revertToVersion v admin now store = Inl (VersionNotFound v))"
proof (intro conjI allI impI)
  fix current assume "findActiveConfig store = Some current"
  from updateConfig_result [OF this, of updates admin now]
  show "\<exists>new. updateConfig updates admin now store =
                Inr (new, map (\<lambda>d. d\<lparr> isActive := False \<rparr>) store @ [new])
            \<and> version new = version current + 1
            \<and> filter isActive (map (\<lambda>d. d\<lparr> isActive := False \<rparr>) store @ [new]) = [new]"
    using one_active [of _ store] by blast
next
  assume "findActiveConfig store = None"
  then show "updateConfig updates admin now store = Inl NoActiveConfiguration"
    by (simp add: updateConfig_def)
next
  fix target assume t: "find (\<lambda>d. version d = v) store = Some target"
  then have ne: "map version store \<noteq> []" and tv: "target \<in> set store" "version target = v"
    by (auto simp add: find_Some_iff)
  from revertToVersion_result [OF t, of admin now]
  obtain new where r: "revertToVersion v admin now store =
                Inr (new, map (\<lambda>d. d\<lparr> isActive := False \<rparr>) store @ [new])"
    and vn: "version new = Math_max (map version store) + 1" and act: "isActive new"
    by blast
  have above: "version d < version new" if "d \<in> set store" for d
    using Math_max_ge [OF ne, of "version d"] that vn by simp
  from above [OF tv(1)] tv(2) have "version new \<noteq> v" by simp
  with r vn act above Math_max_Max [OF ne] one_active [OF act, of store]
  show "\<exists>new. revertToVersion v admin now store =
                Inr (new, map (\<lambda>d. d\<lparr> isActive := False \<rparr>) store @ [new])
            \<and> version new = Max (set (map version store)) + 1
            \<and> (\<forall>d \<in> set store. version d < version new)
            \<and> version new \<noteq> v
            \<and> filter isActive (map (\<lambda>d. d\<lparr> isActive := False \<rparr>) store @ [new]) = [new]"
    by auto
next
  assume "find (\<lambda>d. version d = v) store = None"
  then show "revertToVersion v admin now store = Inl (VersionNotFound v)"
    by (simp add: revertToVersion_def)
qed

theorem config_versioning_witness:
  "(\<exists>new. updateConfig (emptyPartial\<lparr> upd_welcomeBonus := Some 600 \<rparr>) (Some 1) 1000 firstStore =
            Inr (new, map (\<lambda>d. d\<lparr> isActive := False \<rparr>) firstStore @ [new])
         \<and> version new = 2
         \<and> filter isActive (map (\<lambda>d. d\<lparr> isActive := False \<rparr>) firstStore @ [new]) = [new])
   \<and> (\<exists>new. revertToVersion 1 None 2000 secondStore =
            Inr (new, map (\<lambda>d. d\<lparr> isActive := False \<rparr>) secondStore @ [new])
         \<and> version new = 3
         \<and> filter isActive (map (\<lambda>d. d\<lparr> isActive := False \<rparr>) secondStore @ [new]) = [new])
   \<and> map version secondStore = [1, 2] \<and> map isActive secondStore = [False, True]"
proof -
  have a: "findActiveConfig firstStore = Some (createDefaultConfig 0 [])" by code_simp
  have v: "version (createDefaultConfig 0 []) = 1" by code_simp
  have t: "find (\<lambda>d. version d = 1) secondStore = Some (hd secondStore)" by code_simp
  have s: "map version secondStore = [1, 2]" "map isActive secondStore = [False, True]"
    by code_simp+
  from s(1) have m: "Max (set (map version secondStore)) = 2" by simp
  from config_versioning [of firstStore "emptyPartial\<lparr> upd_welcomeBonus := Some 600 \<rparr>"
      "Some 1" 1000, THEN conjunct1, rule_format, OF a]
  obtain new where r: "updateConfig (emptyPartial\<lparr> upd_welcomeBonus := Some 600 \<rparr>) (Some 1) 1000
              firstStore = Inr (new, map (\<lambda>d. d\<lparr> isActive := False \<rparr>) firstStore @ [new])"
    and vn: "version new = version (createDefaultConfig 0 []) + 1"
    and f: "filter isActive (map (\<lambda>d. d\<lparr> isActive := False \<rparr>) firstStore @ [new]) = [new]"
    by blast
  from vn v have "version new = 2" by simp
  with r f
  have 1: "\<exists>new. updateConfig (emptyPartial\<lparr> upd_welcomeBonus := Some 600 \<rparr>) (Some 1) 1000
              firstStore = Inr (new, map (\<lambda>d. d\<lparr> isActive := False \<rparr>) firstStore @ [new])
         \<and> version new = 2
         \<and> filter isActive (map (\<lambda>d. d\<lparr> isActive := False \<rparr>) firstStore @ [new]) = [new]"
    by blast
  from config_versioning [of secondStore _ None 2000 1, THEN conjunct2, THEN conjunct2,
      THEN conjunct1, rule_format, OF t]
  obtain new where r: "revertToVersion 1 None 2000 secondStore =
            Inr (new, map (\<lambda>d. d\<lparr> isActive := False \<rparr>) secondStore @ [new])"
    and vn: "version new = Max (set (map version secondStore)) + 1"
    and f: "filter isActive (map (\<lambda>d. d\<lparr> isActive := False \<rparr>) secondStore @ [new]) = [new]"
    by blast
  from vn m have "version new = 3" by simp
  with r f
  have 2: "\<exists>new. revertToVersion 1 None 2000 secondStore =
            Inr (new, map (\<lambda>d. d\<lparr> isActive := False \<rparr>) secondStore @ [new])
         \<and> version new = 3
         \<and> filter isActive (map (\<lambda>d. d\<lparr> isActive := False \<rparr>) secondStore @ [new]) = [new]"
    by blast
  from 1 2 s show ?thesis by (intro conjI)
qed

subsection \<open>The challenge\<close>

lemma pendingSession_completed [simp]:
  "\<not> pendingSession uid gid code (s\<lparr> isCompleted := True \<rparr>)"
  by (simp add: pendingSession_def)








end
